theory Spec2Isabelle
  imports Main "HOL-Library.Char_ord" "HOL-Library.List_Lexorder"
begin

section \<open>JavaScript values and errors\<close>

text \<open>
  The values the repository moves around as \<^verbatim>\<open>unknown\<close> or \<^verbatim>\<open>any\<close>: what
  \<^verbatim>\<open>JSON.parse\<close> can return, and \<^verbatim>\<open>undefined\<close>. Numbers are restricted to
  integers (timestamps, attempts, limits); fractions and \<^verbatim>\<open>NaN\<close> are outside the model.
\<close>

datatype js_value =
    JUndefined
  | JNull
  | JBool bool
  | JNum int
  | JStr string
  | JArr "js_value list"
  | JObj "(string \<times> js_value) list"

text \<open>
  Every \<^verbatim>\<open>throw\<close> of the sources, and every exception of a built-in that the sources let
  escape, is a value of this type:
  \<^item> \<open>NotInitialized\<close>: \<^verbatim>\<open>new Error('Workflow state not initialized')\<close>;
  \<^item> \<open>R2ObjectNotFound key\<close>: \<^verbatim>\<open>new Error(`R2 object not found: ${key}`)\<close>;
  \<^item> \<open>InvalidCursor\<close>: \<^verbatim>\<open>new Error('Invalid pagination cursor')\<close>;
  \<^item> \<open>RunNotFound id\<close>: \<^verbatim>\<open>new Error(`Workflow run not found: ${id}`)\<close>;
  \<^item> \<open>StepNotFound id\<close>: \<^verbatim>\<open>new Error(`Step not found: ${stepId}`)\<close>;
  \<^item> \<open>StepNotInRun stepId runId\<close>: \<^verbatim>\<open>new Error(`Step ${stepId} does not belong to run ${runId}`)\<close>;
  \<^item> \<open>TypeError\<close>: calling a method a value does not have, or reading a property of
    \<^verbatim>\<open>null\<close> or \<^verbatim>\<open>undefined\<close>;
  \<^item> \<open>SyntaxError\<close>: \<^verbatim>\<open>JSON.parse\<close> on a text that is not JSON;
  \<^item> \<open>D1Error\<close>: a statement the database rejects (a primary-key conflict, a parameter
    it cannot bind, a syntax error).
\<close>

datatype error =
    NotInitialized
  | R2ObjectNotFound string
  | InvalidCursor
  | RunNotFound string
  | StepNotFound string
  | StepNotInRun string string
  | TypeError
  | SyntaxError
  | D1Error

section \<open>The run coordinator (durable-objects/workflow-run.ts)\<close>

datatype WorkflowRunStatus = Pending | Running | Completed | Failed | Cancelled | Paused

text \<open>
  The three step collections are \<^verbatim>\<open>Set<string>\<close> objects in a state that \<^verbatim>\<open>initialize\<close>
  creates, and plain arrays in the snapshot that \<^verbatim>\<open>persistState\<close> writes
  (\<^verbatim>\<open>Array.from\<close>) and that \<^verbatim>\<open>initialize\<close> reads back without conversion. Both hold
  their elements in insertion order; only a \<^verbatim>\<open>Set\<close> has \<^verbatim>\<open>add\<close> and \<^verbatim>\<open>delete\<close>.
\<close>

datatype step_collection = JSSet "string list" | JSArray "string list"

fun Array_from :: "step_collection \<Rightarrow> string list" where
  "Array_from (JSSet xs) = xs"
| "Array_from (JSArray xs) = xs"

fun Set_add :: "string \<Rightarrow> step_collection \<Rightarrow> error + step_collection" where
  "Set_add x (JSSet xs) = Inr (JSSet (if x \<in> set xs then xs else xs @ [x]))"
| "Set_add x (JSArray xs) = Inl TypeError"

fun Set_delete :: "string \<Rightarrow> step_collection \<Rightarrow> error + step_collection" where
  "Set_delete x (JSSet xs) = Inr (JSSet (removeAll x xs))"
| "Set_delete x (JSArray xs) = Inl TypeError"

record WorkflowState =
  runId :: string
  status :: WorkflowRunStatus
  activeSteps :: step_collection
  completedSteps :: step_collection
  failedSteps :: step_collection
  metadata :: "string \<rightharpoonup> js_value"

text \<open>
  The object: \<open>storage\<close> is \<^verbatim>\<open>this.state.storage\<close> (a key-value store; the class uses the
  key \<^verbatim>\<open>'state'\<close> only), \<open>this_env\<close> is \<^verbatim>\<open>this.env\<close>, which no method reads, and
  \<open>workflowState\<close> is the private field, \<^verbatim>\<open>null\<close> until \<^verbatim>\<open>initialize\<close> runs.
  A method takes the object and returns its outcome together with the object as the call
  leaves it, so that a mutation made before a \<^verbatim>\<open>throw\<close> is kept.
\<close>

record 'env WorkflowRunObject =
  storage :: "string \<rightharpoonup> WorkflowState"
  this_env :: 'env
  workflowState :: "WorkflowState option"

definition constructor :: "(string \<rightharpoonup> WorkflowState) \<Rightarrow> 'env \<Rightarrow> 'env WorkflowRunObject" where
  "constructor st e = \<lparr>storage = st, this_env = e, workflowState = None\<rparr>"

definition persistState :: "'env WorkflowRunObject \<Rightarrow> 'env WorkflowRunObject" where
  "persistState this =
     (case workflowState this of
        None \<Rightarrow> this
      | Some ws \<Rightarrow>
          this\<lparr>storage := (storage this)(''state'' \<mapsto>
            ws\<lparr>activeSteps := JSArray (Array_from (activeSteps ws)),
               completedSteps := JSArray (Array_from (completedSteps ws)),
               failedSteps := JSArray (Array_from (failedSteps ws))\<rparr>)\<rparr>)"

definition initialize ::
  "string \<Rightarrow> 'env WorkflowRunObject \<Rightarrow> (error + unit) \<times> 'env WorkflowRunObject" where
  "initialize rid this =
     (case storage this ''state'' of
        Some loadedState \<Rightarrow> (Inr (), this\<lparr>workflowState := Some loadedState\<rparr>)
      | None \<Rightarrow>
          (Inr (), persistState (this\<lparr>workflowState := Some
             \<lparr>runId = rid, status = Pending, activeSteps = JSSet [],
              completedSteps = JSSet [], failedSteps = JSSet [],
              metadata = Map.empty\<rparr>\<rparr>)))"

definition updateWorkflowStatus ::
  "WorkflowRunStatus \<Rightarrow> 'env WorkflowRunObject \<Rightarrow> (error + unit) \<times> 'env WorkflowRunObject" where
  "updateWorkflowStatus s this =
     (case workflowState this of
        None \<Rightarrow> (Inl NotInitialized, this)
      | Some ws \<Rightarrow> (Inr (), persistState (this\<lparr>workflowState := Some (ws\<lparr>status := s\<rparr>)\<rparr>)))"

definition startStep ::
  "string \<Rightarrow> 'env WorkflowRunObject \<Rightarrow> (error + unit) \<times> 'env WorkflowRunObject" where
  "startStep stepId this =
     (case workflowState this of
        None \<Rightarrow> (Inl NotInitialized, this)
      | Some ws \<Rightarrow>
          (case Set_add stepId (activeSteps ws) of
             Inl e \<Rightarrow> (Inl e, this)
           | Inr a \<Rightarrow>
               (Inr (), persistState (this\<lparr>workflowState := Some (ws\<lparr>activeSteps := a\<rparr>)\<rparr>))))"

definition completeStep ::
  "string \<Rightarrow> 'env WorkflowRunObject \<Rightarrow> (error + unit) \<times> 'env WorkflowRunObject" where
  "completeStep stepId this =
     (case workflowState this of
        None \<Rightarrow> (Inl NotInitialized, this)
      | Some ws \<Rightarrow>
          (case Set_delete stepId (activeSteps ws) of
             Inl e \<Rightarrow> (Inl e, this)
           | Inr a \<Rightarrow>
               (case Set_add stepId (completedSteps ws) of
                  Inl e \<Rightarrow> (Inl e, this\<lparr>workflowState := Some (ws\<lparr>activeSteps := a\<rparr>)\<rparr>)
                | Inr c \<Rightarrow>
                    (Inr (), persistState (this\<lparr>workflowState :=
                       Some (ws\<lparr>activeSteps := a, completedSteps := c\<rparr>)\<rparr>)))))"

definition failStep ::
  "string \<Rightarrow> 'env WorkflowRunObject \<Rightarrow> (error + unit) \<times> 'env WorkflowRunObject" where
  "failStep stepId this =
     (case workflowState this of
        None \<Rightarrow> (Inl NotInitialized, this)
      | Some ws \<Rightarrow>
          (case Set_delete stepId (activeSteps ws) of
             Inl e \<Rightarrow> (Inl e, this)
           | Inr a \<Rightarrow>
               (case Set_add stepId (failedSteps ws) of
                  Inl e \<Rightarrow> (Inl e, this\<lparr>workflowState := Some (ws\<lparr>activeSteps := a\<rparr>)\<rparr>)
                | Inr f \<Rightarrow>
                    (Inr (), persistState (this\<lparr>workflowState :=
                       Some (ws\<lparr>activeSteps := a, failedSteps := f\<rparr>)\<rparr>)))))"

definition getState :: "'env WorkflowRunObject \<Rightarrow> WorkflowState option" where
  "getState this = workflowState this"

definition canAcceptSteps :: "'env WorkflowRunObject \<Rightarrow> bool" where
  "canAcceptSteps this =
     (case workflowState this of
        None \<Rightarrow> False
      | Some ws \<Rightarrow> status ws = Running \<or> status ws = Pending)"

definition setMetadata ::
  "string \<Rightarrow> js_value \<Rightarrow> 'env WorkflowRunObject \<Rightarrow> (error + unit) \<times> 'env WorkflowRunObject" where
  "setMetadata k v this =
     (case workflowState this of
        None \<Rightarrow> (Inl NotInitialized, this)
      | Some ws \<Rightarrow>
          (Inr (), persistState (this\<lparr>workflowState := Some (ws\<lparr>metadata := (metadata ws)(k \<mapsto> v)\<rparr>)\<rparr>)))"

text \<open>
  \<^verbatim>\<open>metadata[key]\<close> of a key that was never set is \<^verbatim>\<open>undefined\<close> (the keys that every
  object inherits from its prototype are not modelled).
\<close>

definition getMetadata :: "string \<Rightarrow> 'env WorkflowRunObject \<Rightarrow> js_value" where
  "getMetadata k this =
     (case workflowState this of
        None \<Rightarrow> JUndefined
      | Some ws \<Rightarrow> (case metadata ws k of None \<Rightarrow> JUndefined | Some v \<Rightarrow> v))"

subsection \<open>Sequences of step operations\<close>

datatype step_op = StartStep string | CompleteStep string | FailStep string

fun step_call ::
  "step_op \<Rightarrow> 'env WorkflowRunObject \<Rightarrow> (error + unit) \<times> 'env WorkflowRunObject" where
  "step_call (StartStep s) this = startStep s this"
| "step_call (CompleteStep s) this = completeStep s this"
| "step_call (FailStep s) this = failStep s this"

text \<open>The calls are made one after the other, whatever each one returns.\<close>

fun step_calls ::
  "step_op list \<Rightarrow> 'env WorkflowRunObject \<Rightarrow> (error + unit) list \<times> 'env WorkflowRunObject" where
  "step_calls [] this = ([], this)"
| "step_calls (c # cs) this =
     (case step_call c this of
        (r, this') \<Rightarrow> (case step_calls cs this' of (rs, this'') \<Rightarrow> (r # rs, this'')))"

definition members :: "step_collection \<Rightarrow> string set" where
  "members c = set (Array_from c)"

definition pairwise_disjoint :: "WorkflowState \<Rightarrow> bool" where
  "pairwise_disjoint ws \<longleftrightarrow>
     members (activeSteps ws) \<inter> members (completedSteps ws) = {} \<and>
     members (activeSteps ws) \<inter> members (failedSteps ws) = {} \<and>
     members (completedSteps ws) \<inter> members (failedSteps ws) = {}"

definition steps_disjoint :: "'env WorkflowRunObject \<Rightarrow> bool" where
  "steps_disjoint this = (case workflowState this of None \<Rightarrow> True | Some ws \<Rightarrow> pairwise_disjoint ws)"

text \<open>
  A call that keeps an identifier in one collection: a step is started only when it is in
  neither \<open>completedSteps\<close> nor \<open>failedSteps\<close>, completed only when it is not in
  \<open>failedSteps\<close>, failed only when it is not in \<open>completedSteps\<close>.
\<close>

fun keeps_apart :: "step_op \<Rightarrow> 'env WorkflowRunObject \<Rightarrow> bool" where
  "keeps_apart (StartStep s) this =
     (case workflowState this of
        None \<Rightarrow> True
      | Some ws \<Rightarrow> s \<notin> members (completedSteps ws) \<and> s \<notin> members (failedSteps ws))"
| "keeps_apart (CompleteStep s) this =
     (case workflowState this of None \<Rightarrow> True | Some ws \<Rightarrow> s \<notin> members (failedSteps ws))"
| "keeps_apart (FailStep s) this =
     (case workflowState this of None \<Rightarrow> True | Some ws \<Rightarrow> s \<notin> members (completedSteps ws))"

fun all_keep_apart :: "step_op list \<Rightarrow> 'env WorkflowRunObject \<Rightarrow> bool" where
  "all_keep_apart [] this = True"
| "all_keep_apart (c # cs) this =
     (keeps_apart c this \<and> all_keep_apart cs (snd (step_call c this)))"

text \<open>A state whose three collections are \<^verbatim>\<open>Set\<close> objects, as \<^verbatim>\<open>initialize\<close> creates it.\<close>

fun is_Set :: "step_collection \<Rightarrow> bool" where
  "is_Set (JSSet xs) = True"
| "is_Set (JSArray xs) = False"

definition live :: "WorkflowState \<Rightarrow> bool" where
  "live ws \<longleftrightarrow> is_Set (activeSteps ws) \<and> is_Set (completedSteps ws) \<and> is_Set (failedSteps ws)"

text \<open>The object after \<^verbatim>\<open>initialize('wrun_1')\<close> on an empty storage.\<close>

definition fresh_object :: "unit WorkflowRunObject" where
  "fresh_object = snd (initialize ''wrun_1'' (constructor Map.empty ()))"

text \<open>
  A second instance, constructed over the storage of the first (the object was evicted
  and created again) and initialised; and the first instance initialised a second time.
\<close>

definition reloaded_object :: "unit WorkflowRunObject" where
  "reloaded_object = snd (initialize ''wrun_1'' (constructor (storage fresh_object) ()))"

definition reinitialized_object :: "unit WorkflowRunObject" where
  "reinitialized_object = snd (initialize ''wrun_1'' fresh_object)"


section \<open>What the platform provides\<close>

datatype sort_order = asc | desc

text \<open>
  The sources call four built-ins of the JavaScript runtime. They are not code of the
  repository, so every function below takes them as a parameter:
  \<^item> \<open>JSON_stringify\<close>: \<^verbatim>\<open>JSON.stringify\<close>; \<open>None\<close> when it returns \<^verbatim>\<open>undefined\<close>;
  \<^item> \<open>JSON_parse\<close>: \<^verbatim>\<open>JSON.parse\<close>; \<open>None\<close> when it throws;
  \<^item> \<open>btoa\<close>: total here, since every \<^typ>\<open>char\<close> is a code unit below 256;
  \<^item> \<open>atob\<close>: \<open>None\<close> when it throws.

  A fifth parameter is the scheduler's. The list operations convert their rows
  concurrently, under \<^verbatim>\<open>Promise.all\<close>, which rejects with the error of the conversion that
  rejects first in time; which one that is does not follow from the sources.
  \<open>first_rejection es\<close> is the position, in the list \<open>es\<close> of the errors in row order, of
  the one that comes first (it is taken modulo the length of \<open>es\<close>).
\<close>

record platform =
  JSON_stringify :: "js_value \<Rightarrow> string option"
  JSON_parse :: "string \<Rightarrow> js_value option"
  btoa :: "string \<Rightarrow> string"
  atob :: "string \<Rightarrow> string option"
  first_rejection :: "error list \<Rightarrow> nat"

text \<open>\<^verbatim>\<open>JSON.parse(text)\<close> as a call that may throw.\<close>

definition parse_text :: "platform \<Rightarrow> string \<Rightarrow> error + js_value" where
  "parse_text pf text = (case JSON_parse pf text of None \<Rightarrow> Inl SyntaxError | Some v \<Rightarrow> Inr v)"

text \<open>What \<^verbatim>\<open>if (v)\<close>, \<^verbatim>\<open>!v\<close> and \<^verbatim>\<open>v || w\<close> test.\<close>

fun truthy :: "js_value \<Rightarrow> bool" where
  "truthy JUndefined = False"
| "truthy JNull = False"
| "truthy (JBool b) = b"
| "truthy (JNum n) = (n \<noteq> 0)"
| "truthy (JStr s) = (s \<noteq> [])"
| "truthy (JArr vs) = True"
| "truthy (JObj kvs) = True"

text \<open>The same test on an optional string and on an optional number (\<open>None\<close>: absent).\<close>

definition truthy_string :: "string option \<Rightarrow> bool" where
  "truthy_string s = (case s of None \<Rightarrow> False | Some t \<Rightarrow> t \<noteq> [])"

definition truthy_number :: "int option \<Rightarrow> bool" where
  "truthy_number n = (case n of None \<Rightarrow> False | Some k \<Rightarrow> k \<noteq> 0)"

text \<open>
  An object is the list of its properties; where a key is repeated, the last entry is its
  value. Reading a property of \<^verbatim>\<open>null\<close> or \<^verbatim>\<open>undefined\<close> is a \<^verbatim>\<open>TypeError\<close>.
\<close>

definition own_property :: "(string \<times> js_value) list \<Rightarrow> string \<Rightarrow> js_value option" where
  "own_property kvs k = map_of (rev kvs) k"

fun get_property :: "js_value \<Rightarrow> string \<Rightarrow> error + js_value" where
  "get_property JUndefined k = Inl TypeError"
| "get_property JNull k = Inl TypeError"
| "get_property (JObj kvs) k = Inr (case own_property kvs k of None \<Rightarrow> JUndefined | Some v \<Rightarrow> v)"
| "get_property v k = Inr JUndefined"

section \<open>The tiered payload store (utils/r2.ts)\<close>

datatype reference_type = Inline | R2

record DataReference =
  type :: reference_type
  data :: string

type_synonym R2Bucket = "string \<rightharpoonup> string"

definition generateR2Key :: "string \<Rightarrow> string \<Rightarrow> string \<Rightarrow> string" where
  "generateR2Key prefix ident field = prefix @ ''/'' @ ident @ ''/'' @ field"

text \<open>
  \<^verbatim>\<open>storeData\<close> returns the reference and the bucket as the call leaves it. When
  \<^verbatim>\<open>JSON.stringify\<close> returns \<^verbatim>\<open>undefined\<close>, reading \<^verbatim>\<open>jsonData.length\<close> throws. The
  threshold ranges over the integers.
\<close>

definition storeData ::
  "platform \<Rightarrow> R2Bucket \<Rightarrow> js_value \<Rightarrow> string \<Rightarrow> string \<Rightarrow> string \<Rightarrow> int \<Rightarrow>
     (error + DataReference) \<times> R2Bucket" where
  "storeData pf bucket dat keyPrefix ident field threshold =
     (case JSON_stringify pf dat of
        None \<Rightarrow> (Inl TypeError, bucket)
      | Some jsonData \<Rightarrow>
          if int (length jsonData) \<le> threshold
          then (Inr \<lparr>type = Inline, data = jsonData\<rparr>, bucket)
          else (let key = generateR2Key keyPrefix ident field
                in (Inr \<lparr>type = R2, data = key\<rparr>, bucket(key \<mapsto> jsonData))))"

text \<open>\<^verbatim>\<open>retrieveData\<close> only reads the bucket; its \<^verbatim>\<open>null\<close> result is \<open>JNull\<close>.\<close>

definition retrieveData :: "platform \<Rightarrow> R2Bucket \<Rightarrow> DataReference option \<Rightarrow> error + js_value" where
  "retrieveData pf bucket reference =
     (case reference of
        None \<Rightarrow> Inr JNull
      | Some r \<Rightarrow>
          if type r = Inline then parse_text pf (data r)
          else (case bucket (data r) of
                  None \<Rightarrow> Inl (R2ObjectNotFound (data r))
                | Some text \<Rightarrow> parse_text pf text))"

definition deleteData :: "R2Bucket \<Rightarrow> DataReference option \<Rightarrow> R2Bucket" where
  "deleteData bucket reference =
     (case reference of
        None \<Rightarrow> bucket
      | Some r \<Rightarrow> if type r = Inline then bucket else bucket(data r := None))"

definition createDataReference :: "reference_type option \<Rightarrow> string option \<Rightarrow> DataReference option" where
  "createDataReference t d =
     (case t of
        None \<Rightarrow> None
      | Some ty \<Rightarrow>
          (case d of
             None \<Rightarrow> None
           | Some dat \<Rightarrow> if dat = [] then None else Some \<lparr>type = ty, data = dat\<rparr>))"

section \<open>Cursors and pages (utils/pagination.ts)\<close>

record PaginationCursor =
  lastId :: string
  lastTimestamp :: int

text \<open>The object literal \<^verbatim>\<open>{ lastId, lastTimestamp }\<close> as a value.\<close>

definition cursor_value :: "PaginationCursor \<Rightarrow> js_value" where
  "cursor_value c = JObj [(''lastId'', JStr (lastId c)), (''lastTimestamp'', JNum (lastTimestamp c))]"

text \<open>\<^verbatim>\<open>btoa\<close> converts its argument to a string first: \<^verbatim>\<open>undefined\<close> becomes the text \<^verbatim>\<open>undefined\<close>.\<close>

definition encodeCursor :: "platform \<Rightarrow> PaginationCursor \<Rightarrow> string" where
  "encodeCursor pf c =
     btoa pf (case JSON_stringify pf (cursor_value c) of None \<Rightarrow> ''undefined'' | Some s \<Rightarrow> s)"

text \<open>
  \<^verbatim>\<open>decodeCursor\<close> returns what \<^verbatim>\<open>JSON.parse\<close> returns: the \<^verbatim>\<open>as PaginationCursor\<close> of the
  source is a type assertion and checks nothing at run time.
\<close>

definition decodeCursor :: "platform \<Rightarrow> string \<Rightarrow> error + js_value" where
  "decodeCursor pf c =
     (case atob pf c of
        None \<Rightarrow> Inl InvalidCursor
      | Some text \<Rightarrow>
          (case JSON_parse pf text of None \<Rightarrow> Inl InvalidCursor | Some v \<Rightarrow> Inr v))"

text \<open>A value with the shape of a cursor: a string \<open>lastId\<close> and an integer \<open>lastTimestamp\<close>.\<close>

definition is_cursor :: "js_value \<Rightarrow> bool" where
  "is_cursor v =
     (case v of
        JObj kvs \<Rightarrow>
          (case (own_property kvs ''lastId'', own_property kvs ''lastTimestamp'') of
             (Some (JStr i), Some (JNum t)) \<Rightarrow> True
           | _ \<Rightarrow> False)
      | _ \<Rightarrow> False)"

record PaginationOptions =
  limit :: "int option"
  cursor :: "string option"
  sortOrder :: "sort_order option"

text \<open>
  \<^verbatim>\<open>pagination?.limit\<close>, \<^verbatim>\<open>pagination?.cursor\<close> and \<^verbatim>\<open>pagination?.sortOrder || d\<close>, where
  the default \<open>d\<close> is \<^verbatim>\<open>'asc'\<close> for events and \<^verbatim>\<open>'desc'\<close> for runs, steps and hooks.
\<close>

definition limit_of :: "PaginationOptions option \<Rightarrow> int option" where
  "limit_of pagination = (case pagination of None \<Rightarrow> None | Some p \<Rightarrow> limit p)"

definition cursor_of :: "PaginationOptions option \<Rightarrow> string option" where
  "cursor_of pagination = (case pagination of None \<Rightarrow> None | Some p \<Rightarrow> cursor p)"

definition order_of :: "sort_order \<Rightarrow> PaginationOptions option \<Rightarrow> sort_order" where
  "order_of d pagination =
     (case pagination of
        None \<Rightarrow> d
      | Some p \<Rightarrow> (case sortOrder p of None \<Rightarrow> d | Some ord \<Rightarrow> ord))"

record 'a PaginatedResponse =
  data :: "'a list"
  cursor :: "string option"
  hasMore :: bool

text \<open>
  The four optional properties that the type bound of \<^verbatim>\<open>createPaginatedResponse\<close> names;
  the function reads them off an item through \<open>ids\<close>.
\<close>

record item_ids =
  id_runId :: "string option"
  id_stepId :: "string option"
  id_eventId :: "string option"
  id_hookId :: "string option"

text \<open>\<^verbatim>\<open>item.runId || item.stepId || item.eventId || item.hookId || ''\<close>\<close>

definition first_id :: "item_ids \<Rightarrow> string" where
  "first_id i =
     (if truthy_string (id_runId i) then the (id_runId i)
      else if truthy_string (id_stepId i) then the (id_stepId i)
      else if truthy_string (id_eventId i) then the (id_eventId i)
      else if truthy_string (id_hookId i) then the (id_hookId i)
      else [])"

text \<open>\<^verbatim>\<open>items.slice(0, n)\<close>: a negative \<open>n\<close> counts from the end.\<close>

definition slice0 :: "'a list \<Rightarrow> int \<Rightarrow> 'a list" where
  "slice0 xs n = (if 0 \<le> n then take (nat n) xs else take (length xs - nat (- n)) xs)"

definition createPaginatedResponse ::
  "platform \<Rightarrow> ('a \<Rightarrow> item_ids) \<Rightarrow> 'a list \<Rightarrow> PaginationOptions option \<Rightarrow> ('a \<Rightarrow> int) \<Rightarrow>
     'a PaginatedResponse" where
  "createPaginatedResponse pf ids items pagination getTimestamp =
     (let lim = limit_of pagination
      in if \<not> truthy_number lim
         then \<lparr>data = items, cursor = None, hasMore = False\<rparr>
         else (let more = (the lim < int (length items));
                   dat = (if more then slice0 items (the lim) else items);
                   cur = (if more \<and> 0 < length dat
                          then Some (encodeCursor pf
                                 \<lparr>lastId = first_id (ids (last dat)),
                                  lastTimestamp = getTimestamp (last dat)\<rparr>)
                          else None)
               in \<lparr>data = dat, cursor = cur, hasMore = more\<rparr>))"

text \<open>
  The two template literals of \<^verbatim>\<open>buildCursorWhereClause\<close>: the text of the keyset clause
  for a sort order. It starts with the keyword \<^verbatim>\<open>AND\<close>.
\<close>

definition keyset_clause :: "string \<Rightarrow> string \<Rightarrow> sort_order \<Rightarrow> string" where
  "keyset_clause timestampColumn idColumn ord =
     (if ord = desc
      then ''AND ('' @ timestampColumn @ '' < ? OR ('' @ timestampColumn @ '' = ? AND ''
             @ idColumn @ '' < ?))''
      else ''AND ('' @ timestampColumn @ '' > ? OR ('' @ timestampColumn @ '' = ? AND ''
             @ idColumn @ '' > ?))'')"

text \<open>
  \<^verbatim>\<open>buildCursorWhereClause\<close>: the clause and the three values to bind to it,
  \<^verbatim>\<open>decoded.lastTimestamp\<close> twice and \<^verbatim>\<open>decoded.lastId\<close>; the empty text and no values
  without a cursor.
\<close>

definition buildCursorWhereClause ::
  "platform \<Rightarrow> string option \<Rightarrow> string \<Rightarrow> string \<Rightarrow> sort_order \<Rightarrow>
     error + string \<times> js_value list" where
  "buildCursorWhereClause pf c timestampColumn idColumn ord =
     (if \<not> truthy_string c then Inr ([], [])
      else (case decodeCursor pf (the c) of
              Inl e \<Rightarrow> Inl e
            | Inr decoded \<Rightarrow>
                (case get_property decoded ''lastTimestamp'' of
                   Inl e \<Rightarrow> Inl e
                 | Inr ts \<Rightarrow>
                     (case get_property decoded ''lastId'' of
                        Inl e \<Rightarrow> Inl e
                      | Inr i \<Rightarrow>
                          Inr (keyset_clause timestampColumn idColumn ord, [ts, ts, i])))))"

section \<open>The environment: database, bucket and queue\<close>

text \<open>
  A table is the list of its rows in insertion order; the primary key is checked at
  \<^verbatim>\<open>INSERT\<close>. Failures of the network and of the services themselves are not modelled:
  a statement fails only when the database has to reject it.
\<close>

record WorkflowEventRow =
  event_id :: string
  run_id :: string
  event_type :: string
  correlation_id :: "string option"
  event_data_type :: "reference_type option"
  event_data :: "string option"
  created_at :: int

record WorkflowHookRow =
  hook_id :: string
  run_id :: string
  token :: string
  owner_id :: string
  project_id :: string
  environment :: string
  metadata :: "string option"
  created_at :: int

record WorkflowRunRow =
  run_id :: string
  deployment_id :: string
  workflow_name :: string
  status :: WorkflowRunStatus
  input_type :: reference_type
  input_data :: "string option"
  output_type :: "reference_type option"
  output_data :: "string option"
  execution_context :: "string option"
  error :: "string option"
  error_code :: "string option"
  created_at :: int
  updated_at :: int
  started_at :: "int option"
  completed_at :: "int option"

datatype StepStatus = step_pending | step_running | step_completed | step_failed | step_cancelled

record WorkflowStepRow =
  step_id :: string
  run_id :: string
  step_name :: string
  status :: StepStatus
  input_type :: reference_type
  input_data :: "string option"
  output_type :: "reference_type option"
  output_data :: "string option"
  attempt :: int
  error :: "string option"
  error_code :: "string option"
  created_at :: int
  updated_at :: int
  started_at :: "int option"
  completed_at :: "int option"

record QueueMessageRow =
  message_id :: string
  queue_name :: string
  deployment_id :: "string option"
  idempotency_key :: "string option"
  message_data :: string
  processed_at :: "int option"

record D1Database =
  workflow_runs :: "WorkflowRunRow list"
  workflow_steps :: "WorkflowStepRow list"
  workflow_events :: "WorkflowEventRow list"
  workflow_hooks :: "WorkflowHookRow list"
  queue_messages :: "QueueMessageRow list"

text \<open>The envelope \<^verbatim>\<open>env.QUEUE.send\<close> is given; \<open>QUEUE\<close> lists what was sent.\<close>

record queue_envelope =
  messageId :: string
  queueName :: string
  message :: js_value
  metadata_deploymentId :: "string option"
  metadata_idempotencyKey :: "string option"

record Env =
  DB :: D1Database
  WORKFLOW_STORAGE :: R2Bucket
  QUEUE :: "queue_envelope list"

section \<open>How the database reads a list query\<close>

text \<open>
  The list operations build the \<^verbatim>\<open>WHERE\<close> condition of their \<^verbatim>\<open>SELECT\<close> as text, from
  pieces joined with \<^verbatim>\<open> AND \<close>. This section is the database's side of such a query. The
  condition is read by the grammar

  \<^verbatim>\<open>condition   ::= conjunction [ OR condition ]\<close>

  \<^verbatim>\<open>conjunction ::= comparison [ AND conjunction ]\<close>

  \<^verbatim>\<open>comparison  ::= ( condition ) | operand (= | < | >) operand\<close>

  \<^verbatim>\<open>operand     ::= column | ? | number\<close>

  with the keywords in capitals, as the sources write them. Every piece the sources
  join is written in this fragment of SQL; a text that does not follow the grammar is a
  syntax error, and the statement is rejected.
\<close>

datatype sql_value = SNull | SInt int | SText string

datatype sql_token = TWord string | TSym char

definition is_digit :: "char \<Rightarrow> bool" where
  "is_digit c = (CHR ''0'' \<le> c \<and> c \<le> CHR ''9'')"

fun read_digits :: "nat \<Rightarrow> string \<Rightarrow> nat \<times> string" where
  "read_digits acc [] = (acc, [])"
| "read_digits acc (c # cs) =
     (if is_digit c then read_digits (acc * 10 + (of_char c - 48)) cs else (acc, c # cs))"

definition is_word_char :: "char \<Rightarrow> bool" where
  "is_word_char c =
     (is_digit c \<or> (CHR ''a'' \<le> c \<and> c \<le> CHR ''z'') \<or> (CHR ''A'' \<le> c \<and> c \<le> CHR ''Z'')
      \<or> c = CHR ''_'')"

text \<open>
  The tokens of a text: maximal runs of letters, digits and underscores are words, blanks
  separate, and every other character is a symbol of its own. \<open>w\<close> is the word being read.
\<close>

fun end_word :: "string \<Rightarrow> sql_token list" where
  "end_word [] = []"
| "end_word (c # cs) = [TWord (c # cs)]"

fun sql_tokens :: "string \<Rightarrow> string \<Rightarrow> sql_token list" where
  "sql_tokens w [] = end_word w"
| "sql_tokens w (c # cs) =
     (if is_word_char c then sql_tokens (w @ [c]) cs
      else end_word w
           @ (if c \<in> set [CHR '' '', CHR 0x09, CHR 0x0A, CHR 0x0D] then [] else [TSym c])
           @ sql_tokens [] cs)"

datatype sql_operand = Column string | Placeholder | Constant sql_value

datatype sql_condition =
    Compare sql_operand char sql_operand
  | AllOf sql_condition sql_condition
  | AnyOf sql_condition sql_condition

definition read_operand :: "sql_token \<Rightarrow> sql_operand option" where
  "read_operand t =
     (case t of
        TSym c \<Rightarrow> if c = CHR ''?'' then Some Placeholder else None
      | TWord w \<Rightarrow>
          if w = ''AND'' \<or> w = ''OR'' then None
          else if list_all is_digit w then Some (Constant (SInt (int (fst (read_digits 0 w)))))
          else if is_digit (hd w) then None
          else Some (Column w))"

text \<open>
  One function for each rule of the grammar; each returns what it read and the tokens
  left. The first argument bounds the depth of the calls.
\<close>

fun read_condition :: "nat \<Rightarrow> sql_token list \<Rightarrow> (sql_condition \<times> sql_token list) option"
  and read_conjunction :: "nat \<Rightarrow> sql_token list \<Rightarrow> (sql_condition \<times> sql_token list) option"
  and read_comparison :: "nat \<Rightarrow> sql_token list \<Rightarrow> (sql_condition \<times> sql_token list) option"
where
  "read_condition 0 ts = None"
| "read_condition (Suc n) ts =
     (case read_conjunction n ts of
        None \<Rightarrow> None
      | Some (l, rest) \<Rightarrow>
          (if rest \<noteq> [] \<and> hd rest = TWord ''OR''
           then (case read_condition n (tl rest) of
                   None \<Rightarrow> None
                 | Some (r, rest') \<Rightarrow> Some (AnyOf l r, rest'))
           else Some (l, rest)))"
| "read_conjunction 0 ts = None"
| "read_conjunction (Suc n) ts =
     (case read_comparison n ts of
        None \<Rightarrow> None
      | Some (l, rest) \<Rightarrow>
          (if rest \<noteq> [] \<and> hd rest = TWord ''AND''
           then (case read_conjunction n (tl rest) of
                   None \<Rightarrow> None
                 | Some (r, rest') \<Rightarrow> Some (AllOf l r, rest'))
           else Some (l, rest)))"
| "read_comparison 0 ts = None"
| "read_comparison (Suc n) [] = None"
| "read_comparison (Suc n) (t # ts) =
     (if t = TSym (CHR ''('')
      then (case read_condition n ts of
              None \<Rightarrow> None
            | Some (c, rest) \<Rightarrow>
                if rest \<noteq> [] \<and> hd rest = TSym (CHR '')'') then Some (c, tl rest) else None)
      else (case (read_operand t, ts) of
              (Some a, TSym op # t' # rest) \<Rightarrow>
                (case read_operand t' of
                   None \<Rightarrow> None
                 | Some b \<Rightarrow>
                     if op \<in> set [CHR ''='', CHR ''<'', CHR ''>''] then Some (Compare a op b, rest)
                     else None)
            | _ \<Rightarrow> None))"

text \<open>The condition a text stands for; \<open>None\<close> is the syntax error.\<close>

definition sql_condition_of :: "string \<Rightarrow> sql_condition option" where
  "sql_condition_of text =
     (let ts = sql_tokens [] text
      in case read_condition (3 * length ts + 3) ts of
           None \<Rightarrow> None
         | Some (c, rest) \<Rightarrow> if rest = [] then Some c else None)"

text \<open>
  \<^verbatim>\<open>.bind(...values)\<close>: a string, a number and \<^verbatim>\<open>null\<close> are bound as they are, a boolean as
  \<open>1\<close> or \<open>0\<close>; \<^verbatim>\<open>undefined\<close>, an array and an object are rejected. The values are put
  in the place of the \<^verbatim>\<open>?\<close> of the condition in the order of the text, and there must
  be as many of the ones as of the others.
\<close>

fun d1_value :: "js_value \<Rightarrow> sql_value option" where
  "d1_value JNull = Some SNull"
| "d1_value (JBool b) = Some (SInt (if b then 1 else 0))"
| "d1_value (JNum n) = Some (SInt n)"
| "d1_value (JStr s) = Some (SText s)"
| "d1_value v = None"

fun bind_operand :: "sql_operand \<Rightarrow> sql_value list \<Rightarrow> (sql_operand \<times> sql_value list) option" where
  "bind_operand Placeholder [] = None"
| "bind_operand Placeholder (v # vs) = Some (Constant v, vs)"
| "bind_operand a vs = Some (a, vs)"

fun bind_condition ::
  "sql_condition \<Rightarrow> sql_value list \<Rightarrow> (sql_condition \<times> sql_value list) option" where
  "bind_condition (Compare a op b) vs =
     (case bind_operand a vs of
        None \<Rightarrow> None
      | Some (a', vs') \<Rightarrow>
          (case bind_operand b vs' of
             None \<Rightarrow> None
           | Some (b', vs'') \<Rightarrow> Some (Compare a' op b', vs'')))"
| "bind_condition (AllOf l r) vs =
     (case bind_condition l vs of
        None \<Rightarrow> None
      | Some (l', vs') \<Rightarrow>
          (case bind_condition r vs' of
             None \<Rightarrow> None
           | Some (r', vs'') \<Rightarrow> Some (AllOf l' r', vs'')))"
| "bind_condition (AnyOf l r) vs =
     (case bind_condition l vs of
        None \<Rightarrow> None
      | Some (l', vs') \<Rightarrow>
          (case bind_condition r vs' of
             None \<Rightarrow> None
           | Some (r', vs'') \<Rightarrow> Some (AnyOf l' r', vs'')))"

text \<open>
  The value of a bound condition on a row: true, false or, where a \<^verbatim>\<open>NULL\<close> is compared,
  unknown (\<open>None\<close>). Texts are compared byte by byte, and an integer sorts before every
  text.
\<close>

definition compare_by :: "char \<Rightarrow> 'a::linorder \<Rightarrow> 'a \<Rightarrow> bool" where
  "compare_by op a b = (if op = CHR ''='' then a = b else if op = CHR ''<'' then a < b else b < a)"

fun sql_compare :: "char \<Rightarrow> sql_value \<Rightarrow> sql_value \<Rightarrow> bool option" where
  "sql_compare op (SInt a) (SInt b) = Some (compare_by op a b)"
| "sql_compare op (SText a) (SText b) = Some (compare_by op a b)"
| "sql_compare op (SInt a) (SText b) = Some (op = CHR ''<'')"
| "sql_compare op (SText a) (SInt b) = Some (op = CHR ''>'')"
| "sql_compare op SNull b = None"
| "sql_compare op a SNull = None"

fun sql_and :: "bool option \<Rightarrow> bool option \<Rightarrow> bool option" where
  "sql_and (Some False) b = Some False"
| "sql_and a (Some False) = Some False"
| "sql_and (Some True) (Some True) = Some True"
| "sql_and a b = None"

fun sql_or :: "bool option \<Rightarrow> bool option \<Rightarrow> bool option" where
  "sql_or (Some True) b = Some True"
| "sql_or a (Some True) = Some True"
| "sql_or (Some False) (Some False) = Some False"
| "sql_or a b = None"

fun operand_value :: "(string \<Rightarrow> sql_value option) \<Rightarrow> sql_operand \<Rightarrow> sql_value" where
  "operand_value row (Column c) = (case row c of None \<Rightarrow> SNull | Some v \<Rightarrow> v)"
| "operand_value row (Constant v) = v"
| "operand_value row Placeholder = SNull"

fun sql_holds :: "(string \<Rightarrow> sql_value option) \<Rightarrow> sql_condition \<Rightarrow> bool option" where
  "sql_holds row (Compare a op b) = sql_compare op (operand_value row a) (operand_value row b)"
| "sql_holds row (AllOf l r) = sql_and (sql_holds row l) (sql_holds row r)"
| "sql_holds row (AnyOf l r) = sql_or (sql_holds row l) (sql_holds row r)"

fun operand_columns :: "sql_operand \<Rightarrow> string list" where
  "operand_columns (Column c) = [c]"
| "operand_columns a = []"

fun columns_of :: "sql_condition \<Rightarrow> string list" where
  "columns_of (Compare a op b) = operand_columns a @ operand_columns b"
| "columns_of (AllOf l r) = columns_of l @ columns_of r"
| "columns_of (AnyOf l r) = columns_of l @ columns_of r"

text \<open>\<^verbatim>\<open>ORDER BY created_at d, <id> d\<close>: an insertion sort on the pair.\<close>

definition precedes :: "sort_order \<Rightarrow> int \<times> string \<Rightarrow> int \<times> string \<Rightarrow> bool" where
  "precedes ord a b =
     (if ord = asc then fst a < fst b \<or> (fst a = fst b \<and> snd a \<le> snd b)
      else fst b < fst a \<or> (fst a = fst b \<and> snd b \<le> snd a))"

fun insert_by :: "('a \<Rightarrow> 'a \<Rightarrow> bool) \<Rightarrow> 'a \<Rightarrow> 'a list \<Rightarrow> 'a list" where
  "insert_by le x [] = [x]"
| "insert_by le x (y # ys) = (if le x y then x # y # ys else y # insert_by le x ys)"

definition order_by :: "('a \<Rightarrow> 'a \<Rightarrow> bool) \<Rightarrow> 'a list \<Rightarrow> 'a list" where
  "order_by le xs = foldr (insert_by le) xs []"

text \<open>\<^verbatim>\<open>LIMIT n\<close>: the first \<open>n\<close> rows; a negative \<open>n\<close> does not limit.\<close>

definition sql_limit :: "int option \<Rightarrow> 'a list \<Rightarrow> 'a list" where
  "sql_limit n rows =
     (case n of None \<Rightarrow> rows | Some k \<Rightarrow> if 0 \<le> k then take (nat k) rows else rows)"

text \<open>
  The query of a list operation:
  \<^verbatim>\<open>SELECT * FROM t [WHERE where_text] ORDER BY created_at d, <id> d [LIMIT n]\<close>.
  The table \<open>t\<close> is given by the names of its columns, the values of a row under these
  names, the pair a row is ordered by, and its rows. \<^verbatim>\<open>.all()\<close> returns the rows on which
  the condition is true, ordered and limited; \<open>None\<close> when the statement is rejected: a
  value that cannot be bound, a syntax error, a column the table does not have, or a
  number of values that is not the number of \<^verbatim>\<open>?\<close>.
\<close>

record select_all =
  where_text :: "string option"
  order_direction :: sort_order
  limit_clause :: "int option"

definition d1_all ::
  "string list \<Rightarrow> ('row \<Rightarrow> sql_value list) \<Rightarrow> ('row \<Rightarrow> int \<times> string) \<Rightarrow> 'row list \<Rightarrow>
     select_all \<Rightarrow> js_value list \<Rightarrow> 'row list option" where
  "d1_all names vals key rows q bound =
     (case those (map d1_value bound) of
        None \<Rightarrow> None
      | Some vs \<Rightarrow>
          (case where_text q of
             None \<Rightarrow>
               if vs = []
               then Some (sql_limit (limit_clause q)
                       (order_by (\<lambda>a b. precedes (order_direction q) (key a) (key b)) rows))
               else None
           | Some text \<Rightarrow>
               (case sql_condition_of text of
                  None \<Rightarrow> None
                | Some c \<Rightarrow>
                    if \<not> list_all (\<lambda>n. n \<in> set names) (columns_of c) then None
                    else (case bind_condition c vs of
                            None \<Rightarrow> None
                          | Some (b, left) \<Rightarrow>
                              if left \<noteq> [] then None
                              else Some (sql_limit (limit_clause q)
                                     (order_by (\<lambda>x y. precedes (order_direction q) (key x) (key y))
                                        (filter (\<lambda>r. sql_holds (map_of (zip names (vals r))) b
                                                       = Some True)
                                           rows)))))))"

text \<open>The text of a status and of a reference type, as the columns hold them.\<close>

fun run_status_text :: "WorkflowRunStatus \<Rightarrow> string" where
  "run_status_text Pending = ''pending''"
| "run_status_text Running = ''running''"
| "run_status_text Completed = ''completed''"
| "run_status_text Failed = ''failed''"
| "run_status_text Cancelled = ''cancelled''"
| "run_status_text Paused = ''paused''"

fun step_status_text :: "StepStatus \<Rightarrow> string" where
  "step_status_text step_pending = ''pending''"
| "step_status_text step_running = ''running''"
| "step_status_text step_completed = ''completed''"
| "step_status_text step_failed = ''failed''"
| "step_status_text step_cancelled = ''cancelled''"

fun reference_type_text :: "reference_type \<Rightarrow> string" where
  "reference_type_text Inline = ''inline''"
| "reference_type_text R2 = ''r2''"

definition text_or_null :: "string option \<Rightarrow> sql_value" where
  "text_or_null s = (case s of None \<Rightarrow> SNull | Some t \<Rightarrow> SText t)"

definition integer_or_null :: "int option \<Rightarrow> sql_value" where
  "integer_or_null n = (case n of None \<Rightarrow> SNull | Some k \<Rightarrow> SInt k)"

text \<open>The four tables that are listed, as the schema declares them.\<close>

definition workflow_runs_columns :: "string list" where
  "workflow_runs_columns =
     [''run_id'', ''deployment_id'', ''workflow_name'', ''status'', ''input_type'', ''input_data'',
      ''output_type'', ''output_data'', ''execution_context'', ''error'', ''error_code'',
      ''created_at'', ''updated_at'', ''started_at'', ''completed_at'']"

definition workflow_runs_values :: "WorkflowRunRow \<Rightarrow> sql_value list" where
  "workflow_runs_values r =
     [SText (WorkflowRunRow.run_id r), SText (WorkflowRunRow.deployment_id r),
      SText (workflow_name r), SText (run_status_text (WorkflowRunRow.status r)),
      SText (reference_type_text (WorkflowRunRow.input_type r)),
      text_or_null (WorkflowRunRow.input_data r),
      text_or_null (map_option reference_type_text (WorkflowRunRow.output_type r)),
      text_or_null (WorkflowRunRow.output_data r), text_or_null (execution_context r),
      text_or_null (WorkflowRunRow.error r), text_or_null (WorkflowRunRow.error_code r),
      SInt (WorkflowRunRow.created_at r), SInt (WorkflowRunRow.updated_at r),
      integer_or_null (WorkflowRunRow.started_at r),
      integer_or_null (WorkflowRunRow.completed_at r)]"

definition workflow_steps_columns :: "string list" where
  "workflow_steps_columns =
     [''step_id'', ''run_id'', ''step_name'', ''status'', ''input_type'', ''input_data'',
      ''output_type'', ''output_data'', ''attempt'', ''error'', ''error_code'',
      ''created_at'', ''updated_at'', ''started_at'', ''completed_at'']"

definition workflow_steps_values :: "WorkflowStepRow \<Rightarrow> sql_value list" where
  "workflow_steps_values r =
     [SText (step_id r), SText (WorkflowStepRow.run_id r), SText (step_name r),
      SText (step_status_text (WorkflowStepRow.status r)),
      SText (reference_type_text (WorkflowStepRow.input_type r)),
      text_or_null (WorkflowStepRow.input_data r),
      text_or_null (map_option reference_type_text (WorkflowStepRow.output_type r)),
      text_or_null (WorkflowStepRow.output_data r), SInt (WorkflowStepRow.attempt r),
      text_or_null (WorkflowStepRow.error r), text_or_null (WorkflowStepRow.error_code r),
      SInt (WorkflowStepRow.created_at r), SInt (WorkflowStepRow.updated_at r),
      integer_or_null (WorkflowStepRow.started_at r),
      integer_or_null (WorkflowStepRow.completed_at r)]"

definition workflow_events_columns :: "string list" where
  "workflow_events_columns =
     [''event_id'', ''run_id'', ''event_type'', ''correlation_id'', ''event_data_type'',
      ''event_data'', ''created_at'']"

definition workflow_events_values :: "WorkflowEventRow \<Rightarrow> sql_value list" where
  "workflow_events_values r =
     [SText (event_id r), SText (WorkflowEventRow.run_id r), SText (event_type r),
      text_or_null (correlation_id r),
      text_or_null (map_option reference_type_text (event_data_type r)),
      text_or_null (event_data r), SInt (WorkflowEventRow.created_at r)]"

definition workflow_hooks_columns :: "string list" where
  "workflow_hooks_columns =
     [''hook_id'', ''run_id'', ''token'', ''owner_id'', ''project_id'', ''environment'',
      ''metadata'', ''created_at'']"

definition workflow_hooks_values :: "WorkflowHookRow \<Rightarrow> sql_value list" where
  "workflow_hooks_values r =
     [SText (hook_id r), SText (WorkflowHookRow.run_id r), SText (token r), SText (owner_id r),
      SText (project_id r), SText (environment r), text_or_null (WorkflowHookRow.metadata r),
      SInt (WorkflowHookRow.created_at r)]"

section \<open>What the list operations share\<close>

text \<open>\<^verbatim>\<open>whereClauses.join(' AND ')\<close>\<close>

fun Array_join :: "string \<Rightarrow> string list \<Rightarrow> string" where
  "Array_join sep [] = []"
| "Array_join sep [x] = x"
| "Array_join sep (x # y # ys) = x @ sep @ Array_join sep (y # ys)"

text \<open>
  \<^verbatim>\<open>pagination?.limit ? pagination.limit + 1 : undefined\<close>, and the \<^verbatim>\<open>LIMIT\<close> clause, which
  the query carries only when \<^verbatim>\<open>fetchLimit\<close> is truthy.
\<close>

definition fetchLimit :: "PaginationOptions option \<Rightarrow> int option" where
  "fetchLimit pg =
     (if truthy_number (limit_of pg) then Some (the (limit_of pg) + 1) else None)"

definition limit_clause_of :: "int option \<Rightarrow> int option" where
  "limit_clause_of n = (if truthy_number n then n else None)"

text \<open>
  \<^verbatim>\<open>Promise.all\<close> over the conversions of the rows: the list of the results when all
  fulfil, and otherwise the error of the one that rejects first.
\<close>

fun rejections :: "(error + 'a) list \<Rightarrow> error list" where
  "rejections [] = []"
| "rejections (Inl e # rs) = e # rejections rs"
| "rejections (Inr x # rs) = rejections rs"

fun fulfilments :: "(error + 'a) list \<Rightarrow> 'a list" where
  "fulfilments [] = []"
| "fulfilments (Inl e # rs) = fulfilments rs"
| "fulfilments (Inr x # rs) = x # fulfilments rs"

definition Promise_all :: "platform \<Rightarrow> (error + 'a) list \<Rightarrow> error + 'a list" where
  "Promise_all pf rs =
     (let es = rejections rs
      in if es = [] then Inr (fulfilments rs)
         else Inl (es ! (first_rejection pf es mod length es)))"

datatype resolve_data = none | all

text \<open>\<^verbatim>\<open>row.started_at ? new Date(row.started_at) : undefined\<close>: a stored \<open>0\<close> reads as unset.\<close>

definition date_or_undefined :: "int option \<Rightarrow> int option" where
  "date_or_undefined t = (if truthy_number t then t else None)"

text \<open>\<^verbatim>\<open>row.error || undefined\<close>\<close>

definition string_or_undefined :: "string option \<Rightarrow> string option" where
  "string_or_undefined s = (if truthy_string s then s else None)"

section \<open>Event storage (storage/events.ts)\<close>

text \<open>An event as \<^verbatim>\<open>rowToEvent\<close> builds it; an absent \<open>eventData\<close> is \<open>JUndefined\<close>.\<close>

record Event =
  eventType :: string
  correlationId :: "string option"
  eventData :: js_value
  runId :: string
  eventId :: string
  createdAt :: int

definition rowToEvent ::
  "platform \<Rightarrow> R2Bucket \<Rightarrow> WorkflowEventRow \<Rightarrow> resolve_data option \<Rightarrow> error + Event" where
  "rowToEvent pf bucket row rd =
     (case (if event_data_type row \<noteq> None \<and> truthy_string (event_data row) \<and> rd \<noteq> Some none
            then (case retrieveData pf bucket
                         (createDataReference (event_data_type row) (event_data row)) of
                    Inl e \<Rightarrow> Inl e
                  | Inr v \<Rightarrow> Inr (if truthy v then v else JUndefined))
            else Inr JUndefined) of
        Inl e \<Rightarrow> Inl e
      | Inr dat \<Rightarrow>
          Inr \<lparr>eventType = event_type row,
               correlationId = string_or_undefined (correlation_id row),
               eventData = dat,
               Event.runId = WorkflowEventRow.run_id row,
               eventId = event_id row,
               Event.createdAt = WorkflowEventRow.created_at row\<rparr>)"

definition event_ids :: "Event \<Rightarrow> item_ids" where
  "event_ids e = \<lparr>id_runId = Some (Event.runId e), id_stepId = None,
                  id_eventId = Some (eventId e), id_hookId = None\<rparr>"

text \<open>
  \<^verbatim>\<open>list\<close> and \<^verbatim>\<open>listByCorrelationId\<close>; their arguments are the fields of \<^verbatim>\<open>params\<close>.
  Events are listed oldest first unless the caller says otherwise.
\<close>

definition events_list ::
  "platform \<Rightarrow> string \<Rightarrow> PaginationOptions option \<Rightarrow> resolve_data option \<Rightarrow> Env \<Rightarrow>
     error + Event PaginatedResponse" where
  "events_list pf run pg rd env =
     (let sortOrder = order_of asc pg
      in case buildCursorWhereClause pf (cursor_of pg) ''created_at'' ''event_id'' sortOrder of
           Inl e \<Rightarrow> Inl e
         | Inr (clause, cparams) \<Rightarrow>
             (let whereClauses = [''run_id = ?''] @ (if clause \<noteq> [] then [clause] else []);
                  queryParams = [JStr run] @ (if clause \<noteq> [] then cparams else [])
              in case d1_all workflow_events_columns workflow_events_values
                        (\<lambda>r. (WorkflowEventRow.created_at r, event_id r))
                        (workflow_events (DB env))
                        \<lparr>where_text = Some (Array_join '' AND '' whereClauses),
                         order_direction = sortOrder,
                         limit_clause = limit_clause_of (fetchLimit pg)\<rparr>
                        queryParams of
                   None \<Rightarrow> Inl D1Error
                 | Some rows \<Rightarrow>
                     (case Promise_all pf
                             (map (\<lambda>row. rowToEvent pf (WORKFLOW_STORAGE env) row rd) rows) of
                        Inl e \<Rightarrow> Inl e
                      | Inr events \<Rightarrow>
                          Inr (createPaginatedResponse pf event_ids events pg Event.createdAt))))"

definition events_listByCorrelationId ::
  "platform \<Rightarrow> string \<Rightarrow> PaginationOptions option \<Rightarrow> resolve_data option \<Rightarrow> Env \<Rightarrow>
     error + Event PaginatedResponse" where
  "events_listByCorrelationId pf correlation pg rd env =
     (let sortOrder = order_of asc pg
      in case buildCursorWhereClause pf (cursor_of pg) ''created_at'' ''event_id'' sortOrder of
           Inl e \<Rightarrow> Inl e
         | Inr (clause, cparams) \<Rightarrow>
             (let whereClauses = [''correlation_id = ?''] @ (if clause \<noteq> [] then [clause] else []);
                  queryParams = [JStr correlation] @ (if clause \<noteq> [] then cparams else [])
              in case d1_all workflow_events_columns workflow_events_values
                        (\<lambda>r. (WorkflowEventRow.created_at r, event_id r))
                        (workflow_events (DB env))
                        \<lparr>where_text = Some (Array_join '' AND '' whereClauses),
                         order_direction = sortOrder,
                         limit_clause = limit_clause_of (fetchLimit pg)\<rparr>
                        queryParams of
                   None \<Rightarrow> Inl D1Error
                 | Some rows \<Rightarrow>
                     (case Promise_all pf
                             (map (\<lambda>row. rowToEvent pf (WORKFLOW_STORAGE env) row rd) rows) of
                        Inl e \<Rightarrow> Inl e
                      | Inr events \<Rightarrow>
                          Inr (createPaginatedResponse pf event_ids events pg Event.createdAt))))"

section \<open>Hook storage (storage/hooks.ts)\<close>

record Hook =
  hookId :: string
  runId :: string
  token :: string
  ownerId :: string
  projectId :: string
  environment :: string
  metadata :: js_value
  createdAt :: int

definition rowToHook :: "platform \<Rightarrow> WorkflowHookRow \<Rightarrow> resolve_data option \<Rightarrow> error + Hook" where
  "rowToHook pf row rd =
     (case (if truthy_string (WorkflowHookRow.metadata row) \<and> rd \<noteq> Some none
            then parse_text pf (the (WorkflowHookRow.metadata row))
            else Inr JUndefined) of
        Inl e \<Rightarrow> Inl e
      | Inr meta \<Rightarrow>
          Inr \<lparr>hookId = hook_id row,
               Hook.runId = WorkflowHookRow.run_id row,
               Hook.token = WorkflowHookRow.token row,
               ownerId = owner_id row,
               projectId = project_id row,
               Hook.environment = WorkflowHookRow.environment row,
               Hook.metadata = meta,
               Hook.createdAt = WorkflowHookRow.created_at row\<rparr>)"

definition hook_ids :: "Hook \<Rightarrow> item_ids" where
  "hook_ids h = \<lparr>id_runId = Some (Hook.runId h), id_stepId = None,
                 id_eventId = None, id_hookId = Some (hookId h)\<rparr>"

text \<open>
  \<^verbatim>\<open>list\<close>; the run is optional, and without any clause the query has no \<^verbatim>\<open>WHERE\<close>.
\<close>

definition hooks_list ::
  "platform \<Rightarrow> string option \<Rightarrow> PaginationOptions option \<Rightarrow> resolve_data option \<Rightarrow> Env \<Rightarrow>
     error + Hook PaginatedResponse" where
  "hooks_list pf run pg rd env =
     (let sortOrder = order_of desc pg
      in case buildCursorWhereClause pf (cursor_of pg) ''created_at'' ''hook_id'' sortOrder of
           Inl e \<Rightarrow> Inl e
         | Inr (clause, cparams) \<Rightarrow>
             (let whereClauses = (if truthy_string run then [''run_id = ?''] else [])
                                 @ (if clause \<noteq> [] then [clause] else []);
                  queryParams = (if truthy_string run then [JStr (the run)] else [])
                                @ (if clause \<noteq> [] then cparams else [])
              in case d1_all workflow_hooks_columns workflow_hooks_values
                        (\<lambda>r. (WorkflowHookRow.created_at r, hook_id r))
                        (workflow_hooks (DB env))
                        \<lparr>where_text = (if 0 < length whereClauses
                                        then Some (Array_join '' AND '' whereClauses) else None),
                         order_direction = sortOrder,
                         limit_clause = limit_clause_of (fetchLimit pg)\<rparr>
                        queryParams of
                   None \<Rightarrow> Inl D1Error
                 | Some rows \<Rightarrow>
                     (case Promise_all pf (map (\<lambda>row. rowToHook pf row rd) rows) of
                        Inl e \<Rightarrow> Inl e
                      | Inr hooks \<Rightarrow>
                          Inr (createPaginatedResponse pf hook_ids hooks pg Hook.createdAt))))"

section \<open>Run storage (storage/runs.ts)\<close>

record WorkflowRun =
  runId :: string
  deploymentId :: string
  workflowName :: string
  status :: WorkflowRunStatus
  input :: js_value
  output' :: js_value
  executionContext :: js_value
  error :: "string option"
  errorCode :: "string option"
  createdAt :: int
  updatedAt :: int
  startedAt :: "int option"
  completedAt :: "int option"

record CreateWorkflowRunRequest =
  deploymentId :: string
  workflowName :: string
  input :: js_value
  executionContext :: js_value

text \<open>An absent field of an update is \<open>None\<close>, or \<open>JUndefined\<close> where the field is a value.\<close>

record UpdateWorkflowRunRequest =
  status :: "WorkflowRunStatus option"
  output' :: js_value
  executionContext :: js_value
  error :: "string option"
  errorCode :: "string option"

record ListWorkflowRunsParams =
  workflowName :: "string option"
  status :: "WorkflowRunStatus option"
  pagination :: "PaginationOptions option"
  resolveData :: "resolve_data option"

text \<open>
  The payloads of a row, resolved as \<^verbatim>\<open>rowToRun\<close> and \<^verbatim>\<open>rowToStep\<close> do: the input first,
  then the output; \<^verbatim>\<open>[]\<close> and \<^verbatim>\<open>undefined\<close> when \<open>resolveData\<close> is \<^verbatim>\<open>'none'\<close>.
\<close>

definition resolve_payloads ::
  "platform \<Rightarrow> R2Bucket \<Rightarrow> reference_type \<Rightarrow> string option \<Rightarrow> reference_type option \<Rightarrow>
     string option \<Rightarrow> resolve_data option \<Rightarrow> error + js_value \<times> js_value" where
  "resolve_payloads pf bucket in_type in_data out_type out_data rd =
     (if rd = Some none then Inr (JArr [], JUndefined)
      else (case retrieveData pf bucket (createDataReference (Some in_type) in_data) of
              Inl e \<Rightarrow> Inl e
            | Inr i \<Rightarrow>
                (case retrieveData pf bucket (createDataReference out_type out_data) of
                   Inl e \<Rightarrow> Inl e
                 | Inr out \<Rightarrow> Inr (if truthy i then i else JArr [], out))))"

definition rowToRun ::
  "platform \<Rightarrow> R2Bucket \<Rightarrow> WorkflowRunRow \<Rightarrow> resolve_data option \<Rightarrow> error + WorkflowRun" where
  "rowToRun pf bucket row rd =
     (case resolve_payloads pf bucket (WorkflowRunRow.input_type row) (WorkflowRunRow.input_data row)
             (WorkflowRunRow.output_type row) (WorkflowRunRow.output_data row) rd of
        Inl e \<Rightarrow> Inl e
      | Inr (inp, out) \<Rightarrow>
          (case (if truthy_string (execution_context row)
                 then parse_text pf (the (execution_context row))
                 else Inr JUndefined) of
             Inl e \<Rightarrow> Inl e
           | Inr ctx \<Rightarrow>
               Inr \<lparr>WorkflowRun.runId = WorkflowRunRow.run_id row,
                    WorkflowRun.deploymentId = WorkflowRunRow.deployment_id row,
                    WorkflowRun.workflowName = workflow_name row,
                    WorkflowRun.status = WorkflowRunRow.status row,
                    WorkflowRun.input = inp,
                    WorkflowRun.output' = out,
                    WorkflowRun.executionContext = ctx,
                    WorkflowRun.error = string_or_undefined (WorkflowRunRow.error row),
                    errorCode = string_or_undefined (WorkflowRunRow.error_code row),
                    createdAt = WorkflowRunRow.created_at row,
                    updatedAt = WorkflowRunRow.updated_at row,
                    startedAt = date_or_undefined (WorkflowRunRow.started_at row),
                    completedAt = date_or_undefined (WorkflowRunRow.completed_at row)\<rparr>))"

text \<open>\<^verbatim>\<open>SELECT * FROM workflow_runs WHERE run_id = ?\<close>, first row.\<close>

definition select_run :: "Env \<Rightarrow> string \<Rightarrow> WorkflowRunRow option" where
  "select_run env ident = find (\<lambda>r. WorkflowRunRow.run_id r = ident) (workflow_runs (DB env))"

definition runs_get :: "platform \<Rightarrow> string \<Rightarrow> resolve_data option \<Rightarrow> Env \<Rightarrow> error + WorkflowRun" where
  "runs_get pf ident rd env =
     (case select_run env ident of
        None \<Rightarrow> Inl (RunNotFound ident)
      | Some row \<Rightarrow> rowToRun pf (WORKFLOW_STORAGE env) row rd)"

text \<open>\<^verbatim>\<open>INSERT INTO workflow_runs\<close>: rejected when the primary key is taken.\<close>

definition insert_run :: "WorkflowRunRow \<Rightarrow> Env \<Rightarrow> Env option" where
  "insert_run row env =
     (if WorkflowRunRow.run_id row \<in> set (map WorkflowRunRow.run_id (workflow_runs (DB env)))
      then None
      else Some (env\<lparr>DB := (DB env)\<lparr>workflow_runs := workflow_runs (DB env) @ [row]\<rparr>\<rparr>))"

text \<open>
  \<^verbatim>\<open>create\<close>: \<open>ident\<close> is what \<^verbatim>\<open>generateRunId()\<close> returned and \<open>now\<close> what \<^verbatim>\<open>Date.now()\<close>
  returned; \<open>threshold\<close> is the constant of the enclosing \<^verbatim>\<open>createRunStorage\<close>.
  \<open>contextJson\<close> is \<open>Some None\<close> for \<^verbatim>\<open>null\<close> and \<open>None\<close> for \<^verbatim>\<open>undefined\<close>, which the
  database refuses to bind.
\<close>

definition runs_create ::
  "platform \<Rightarrow> int \<Rightarrow> string \<Rightarrow> int \<Rightarrow> CreateWorkflowRunRequest \<Rightarrow> Env \<Rightarrow> (error + WorkflowRun) \<times> Env" where
  "runs_create pf threshold ident now dat env =
     (case storeData pf (WORKFLOW_STORAGE env) (CreateWorkflowRunRequest.input dat)
             ''inputs'' ident ''input'' threshold of
        (Inl e, bucket) \<Rightarrow> (Inl e, env\<lparr>WORKFLOW_STORAGE := bucket\<rparr>)
      | (Inr inputRef, bucket) \<Rightarrow>
          (let env1 = env\<lparr>WORKFLOW_STORAGE := bucket\<rparr>;
               contextJson = (if truthy (CreateWorkflowRunRequest.executionContext dat)
                              then map_option Some
                                     (JSON_stringify pf (CreateWorkflowRunRequest.executionContext dat))
                              else Some None)
           in case contextJson of
                None \<Rightarrow> (Inl D1Error, env1)
              | Some ctx \<Rightarrow>
                  (case insert_run
                          \<lparr>WorkflowRunRow.run_id = ident,
                           WorkflowRunRow.deployment_id = CreateWorkflowRunRequest.deploymentId dat,
                           workflow_name = CreateWorkflowRunRequest.workflowName dat,
                           WorkflowRunRow.status = Pending,
                           WorkflowRunRow.input_type = type inputRef,
                           WorkflowRunRow.input_data = Some (DataReference.data inputRef),
                           WorkflowRunRow.output_type = None,
                           WorkflowRunRow.output_data = None,
                           execution_context = ctx,
                           WorkflowRunRow.error = None,
                           WorkflowRunRow.error_code = None,
                           WorkflowRunRow.created_at = now,
                           WorkflowRunRow.updated_at = now,
                           WorkflowRunRow.started_at = None,
                           WorkflowRunRow.completed_at = None\<rparr> env1 of
                     None \<Rightarrow> (Inl D1Error, env1)
                   | Some env2 \<Rightarrow> (runs_get pf ident None env2, env2))))"

text \<open>One \<^verbatim>\<open>column = ?\<close> of the \<^verbatim>\<open>SET\<close> list of an \<^verbatim>\<open>UPDATE workflow_runs\<close>, with its parameter.\<close>

datatype run_assignment =
    run_updated_at int
  | run_status WorkflowRunStatus
  | run_started_at int
  | run_completed_at int
  | run_output_type reference_type
  | run_output_data string
  | run_execution_context string
  | run_error string
  | run_error_code string

fun assign_run :: "run_assignment \<Rightarrow> WorkflowRunRow \<Rightarrow> WorkflowRunRow" where
  "assign_run (run_updated_at t) r = r\<lparr>WorkflowRunRow.updated_at := t\<rparr>"
| "assign_run (run_status s) r = r\<lparr>WorkflowRunRow.status := s\<rparr>"
| "assign_run (run_started_at t) r = r\<lparr>WorkflowRunRow.started_at := Some t\<rparr>"
| "assign_run (run_completed_at t) r = r\<lparr>WorkflowRunRow.completed_at := Some t\<rparr>"
| "assign_run (run_output_type t) r = r\<lparr>WorkflowRunRow.output_type := Some t\<rparr>"
| "assign_run (run_output_data d) r = r\<lparr>WorkflowRunRow.output_data := Some d\<rparr>"
| "assign_run (run_execution_context c) r = r\<lparr>execution_context := Some c\<rparr>"
| "assign_run (run_error e) r = r\<lparr>WorkflowRunRow.error := Some e\<rparr>"
| "assign_run (run_error_code e) r = r\<lparr>WorkflowRunRow.error_code := Some e\<rparr>"

text \<open>\<^verbatim>\<open>UPDATE workflow_runs SET ... WHERE run_id = ?\<close>\<close>

definition update_run :: "string \<Rightarrow> run_assignment list \<Rightarrow> Env \<Rightarrow> Env" where
  "update_run ident setClauses env =
     env\<lparr>DB := (DB env)\<lparr>workflow_runs :=
       map (\<lambda>r. if WorkflowRunRow.run_id r = ident then fold assign_run setClauses r else r)
         (workflow_runs (DB env))\<rparr>\<rparr>"

text \<open>The assignments that write \<open>started_at\<close> and \<open>completed_at\<close>.\<close>

fun stamps_start :: "run_assignment \<Rightarrow> bool" where
  "stamps_start (run_started_at t) = True"
| "stamps_start c = False"

fun stamps_end :: "run_assignment \<Rightarrow> bool" where
  "stamps_end (run_completed_at t) = True"
| "stamps_end c = False"

text \<open>The clauses the \<^verbatim>\<open>if (data.status !== undefined)\<close> block of \<^verbatim>\<open>update\<close> pushes.\<close>

definition run_status_clauses :: "UpdateWorkflowRunRequest \<Rightarrow> WorkflowRun \<Rightarrow> int \<Rightarrow> run_assignment list" where
  "run_status_clauses dat current now =
     (case UpdateWorkflowRunRequest.status dat of
        None \<Rightarrow> []
      | Some s \<Rightarrow>
          [run_status s]
          @ (if s = Running \<and> startedAt current = None then [run_started_at now] else [])
          @ (if s \<in> set [Completed, Failed, Cancelled] \<and> completedAt current = None
             then [run_completed_at now] else []))"

text \<open>The clauses of the remaining fields, in the order of the source.\<close>

definition run_field_clauses :: "platform \<Rightarrow> UpdateWorkflowRunRequest \<Rightarrow> run_assignment list option" where
  "run_field_clauses pf dat =
     (case (if UpdateWorkflowRunRequest.executionContext dat \<noteq> JUndefined
            then map_option (\<lambda>c. [run_execution_context c])
                   (JSON_stringify pf (UpdateWorkflowRunRequest.executionContext dat))
            else Some []) of
        None \<Rightarrow> None
      | Some ctx \<Rightarrow>
          Some (ctx
            @ (case UpdateWorkflowRunRequest.error dat of None \<Rightarrow> [] | Some e \<Rightarrow> [run_error e])
            @ (case UpdateWorkflowRunRequest.errorCode dat of None \<Rightarrow> [] | Some e \<Rightarrow> [run_error_code e])))"

text \<open>
  \<^verbatim>\<open>update\<close>: \<open>now\<close> is what \<^verbatim>\<open>Date.now()\<close> returned. The statement is not run when a
  parameter is \<^verbatim>\<open>undefined\<close>.
\<close>

definition runs_update ::
  "platform \<Rightarrow> int \<Rightarrow> string \<Rightarrow> UpdateWorkflowRunRequest \<Rightarrow> int \<Rightarrow> Env \<Rightarrow> (error + WorkflowRun) \<times> Env" where
  "runs_update pf threshold ident dat now env =
     (case runs_get pf ident None env of
        Inl e \<Rightarrow> (Inl e, env)
      | Inr current \<Rightarrow>
          (case (if UpdateWorkflowRunRequest.output' dat \<noteq> JUndefined
                 then (case storeData pf (WORKFLOW_STORAGE env) (UpdateWorkflowRunRequest.output' dat)
                               ''outputs'' ident ''output'' threshold of
                         (Inl e, bucket) \<Rightarrow> (Inl e, bucket)
                       | (Inr outputRef, bucket) \<Rightarrow>
                           (Inr [run_output_type (type outputRef),
                                 run_output_data (DataReference.data outputRef)], bucket))
                 else (Inr [], WORKFLOW_STORAGE env)) of
             (Inl e, bucket) \<Rightarrow> (Inl e, env\<lparr>WORKFLOW_STORAGE := bucket\<rparr>)
           | (Inr outputClauses, bucket) \<Rightarrow>
               (let env1 = env\<lparr>WORKFLOW_STORAGE := bucket\<rparr>
                in case run_field_clauses pf dat of
                     None \<Rightarrow> (Inl D1Error, env1)
                   | Some fieldClauses \<Rightarrow>
                       (let setClauses = [run_updated_at now] @ run_status_clauses dat current now
                                         @ outputClauses @ fieldClauses;
                            env2 = update_run ident setClauses env1
                        in (runs_get pf ident None env2, env2)))))"

text \<open>\<^verbatim>\<open>cancel\<close>, \<^verbatim>\<open>pause\<close> and \<^verbatim>\<open>resume\<close> update the status and read the run again.\<close>

definition status_only :: "WorkflowRunStatus \<Rightarrow> UpdateWorkflowRunRequest" where
  "status_only s =
     \<lparr>UpdateWorkflowRunRequest.status = Some s, UpdateWorkflowRunRequest.output' = JUndefined,
      UpdateWorkflowRunRequest.executionContext = JUndefined,
      UpdateWorkflowRunRequest.error = None, UpdateWorkflowRunRequest.errorCode = None\<rparr>"

definition runs_set_status ::
  "WorkflowRunStatus \<Rightarrow> platform \<Rightarrow> int \<Rightarrow> string \<Rightarrow> resolve_data option \<Rightarrow> int \<Rightarrow> Env \<Rightarrow>
     (error + WorkflowRun) \<times> Env" where
  "runs_set_status s pf threshold ident rd now env =
     (case runs_update pf threshold ident (status_only s) now env of
        (Inl e, env1) \<Rightarrow> (Inl e, env1)
      | (Inr r, env1) \<Rightarrow> (runs_get pf ident rd env1, env1))"

definition runs_cancel ::
  "platform \<Rightarrow> int \<Rightarrow> string \<Rightarrow> resolve_data option \<Rightarrow> int \<Rightarrow> Env \<Rightarrow> (error + WorkflowRun) \<times> Env" where
  "runs_cancel = runs_set_status Cancelled"

definition runs_pause ::
  "platform \<Rightarrow> int \<Rightarrow> string \<Rightarrow> resolve_data option \<Rightarrow> int \<Rightarrow> Env \<Rightarrow> (error + WorkflowRun) \<times> Env" where
  "runs_pause = runs_set_status Paused"

definition runs_resume ::
  "platform \<Rightarrow> int \<Rightarrow> string \<Rightarrow> resolve_data option \<Rightarrow> int \<Rightarrow> Env \<Rightarrow> (error + WorkflowRun) \<times> Env" where
  "runs_resume = runs_set_status Running"

subsection \<open>Listing runs\<close>

definition run_ids :: "WorkflowRun \<Rightarrow> item_ids" where
  "run_ids r = \<lparr>id_runId = Some (WorkflowRun.runId r), id_stepId = None,
                id_eventId = None, id_hookId = None\<rparr>"

text \<open>\<^verbatim>\<open>const { workflowName, status, pagination, resolveData } = params || {}\<close>\<close>

definition workflowName_of :: "ListWorkflowRunsParams option \<Rightarrow> string option" where
  "workflowName_of params =
     (case params of None \<Rightarrow> None | Some p \<Rightarrow> ListWorkflowRunsParams.workflowName p)"

definition status_of :: "ListWorkflowRunsParams option \<Rightarrow> WorkflowRunStatus option" where
  "status_of params = (case params of None \<Rightarrow> None | Some p \<Rightarrow> ListWorkflowRunsParams.status p)"

definition pagination_of :: "ListWorkflowRunsParams option \<Rightarrow> PaginationOptions option" where
  "pagination_of params = (case params of None \<Rightarrow> None | Some p \<Rightarrow> pagination p)"

definition resolveData_of :: "ListWorkflowRunsParams option \<Rightarrow> resolve_data option" where
  "resolveData_of params = (case params of None \<Rightarrow> None | Some p \<Rightarrow> resolveData p)"

definition runs_list ::
  "platform \<Rightarrow> ListWorkflowRunsParams option \<Rightarrow> Env \<Rightarrow> error + WorkflowRun PaginatedResponse" where
  "runs_list pf params env =
     (let pg = pagination_of params;
          sortOrder = order_of desc pg
      in case buildCursorWhereClause pf (cursor_of pg) ''created_at'' ''run_id'' sortOrder of
           Inl e \<Rightarrow> Inl e
         | Inr (clause, cparams) \<Rightarrow>
             (let whereClauses =
                    [''1=1'']
                    @ (if truthy_string (workflowName_of params) then [''workflow_name = ?''] else [])
                    @ (if status_of params \<noteq> None then [''status = ?''] else [])
                    @ (if clause \<noteq> [] then [clause] else []);
                  queryParams =
                    (if truthy_string (workflowName_of params)
                     then [JStr (the (workflowName_of params))] else [])
                    @ (case status_of params of
                         None \<Rightarrow> []
                       | Some s \<Rightarrow> [JStr (run_status_text s)])
                    @ (if clause \<noteq> [] then cparams else [])
              in case d1_all workflow_runs_columns workflow_runs_values
                        (\<lambda>r. (WorkflowRunRow.created_at r, WorkflowRunRow.run_id r))
                        (workflow_runs (DB env))
                        \<lparr>where_text = Some (Array_join '' AND '' whereClauses),
                         order_direction = sortOrder,
                         limit_clause = limit_clause_of (fetchLimit pg)\<rparr>
                        queryParams of
                   None \<Rightarrow> Inl D1Error
                 | Some rows \<Rightarrow>
                     (case Promise_all pf
                             (map (\<lambda>row. rowToRun pf (WORKFLOW_STORAGE env) row (resolveData_of params))
                                rows) of
                        Inl e \<Rightarrow> Inl e
                      | Inr runs \<Rightarrow>
                          Inr (createPaginatedResponse pf run_ids runs pg WorkflowRun.createdAt))))"

section \<open>Step storage (storage/steps.ts)\<close>

record Step =
  stepId :: string
  runId :: string
  stepName :: string
  status :: StepStatus
  input :: js_value
  output' :: js_value
  attempt :: int
  error :: "string option"
  errorCode :: "string option"
  createdAt :: int
  updatedAt :: int
  startedAt :: "int option"
  completedAt :: "int option"

record UpdateStepRequest =
  status :: "StepStatus option"
  output' :: js_value
  attempt :: "int option"
  error :: "string option"
  errorCode :: "string option"

definition rowToStep ::
  "platform \<Rightarrow> R2Bucket \<Rightarrow> WorkflowStepRow \<Rightarrow> resolve_data option \<Rightarrow> error + Step" where
  "rowToStep pf bucket row rd =
     (case resolve_payloads pf bucket (WorkflowStepRow.input_type row) (WorkflowStepRow.input_data row)
             (WorkflowStepRow.output_type row) (WorkflowStepRow.output_data row) rd of
        Inl e \<Rightarrow> Inl e
      | Inr (inp, out) \<Rightarrow>
          Inr \<lparr>stepId = step_id row,
               Step.runId = WorkflowStepRow.run_id row,
               stepName = step_name row,
               Step.status = WorkflowStepRow.status row,
               Step.input = inp,
               Step.output' = out,
               Step.attempt = WorkflowStepRow.attempt row,
               Step.error = string_or_undefined (WorkflowStepRow.error row),
               Step.errorCode = string_or_undefined (WorkflowStepRow.error_code row),
               Step.createdAt = WorkflowStepRow.created_at row,
               Step.updatedAt = WorkflowStepRow.updated_at row,
               Step.startedAt = date_or_undefined (WorkflowStepRow.started_at row),
               Step.completedAt = date_or_undefined (WorkflowStepRow.completed_at row)\<rparr>)"

text \<open>\<^verbatim>\<open>SELECT * FROM workflow_steps WHERE step_id = ?\<close>, first row.\<close>

definition select_step :: "Env \<Rightarrow> string \<Rightarrow> WorkflowStepRow option" where
  "select_step env ident = find (\<lambda>r. step_id r = ident) (workflow_steps (DB env))"

definition steps_get ::
  "platform \<Rightarrow> string option \<Rightarrow> string \<Rightarrow> resolve_data option \<Rightarrow> Env \<Rightarrow> error + Step" where
  "steps_get pf run ident rd env =
     (case select_step env ident of
        None \<Rightarrow> Inl (StepNotFound ident)
      | Some row \<Rightarrow>
          if truthy_string run \<and> WorkflowStepRow.run_id row \<noteq> the run
          then Inl (StepNotInRun ident (the run))
          else rowToStep pf (WORKFLOW_STORAGE env) row rd)"

text \<open>One \<^verbatim>\<open>column = ?\<close> of the \<^verbatim>\<open>SET\<close> list of an \<^verbatim>\<open>UPDATE workflow_steps\<close>.\<close>

datatype step_assignment =
    set_updated_at int
  | set_status StepStatus
  | set_started_at int
  | set_completed_at int
  | set_output_type reference_type
  | set_output_data string
  | set_attempt int
  | set_error string
  | set_error_code string

fun assign_step :: "step_assignment \<Rightarrow> WorkflowStepRow \<Rightarrow> WorkflowStepRow" where
  "assign_step (set_updated_at t) r = r\<lparr>WorkflowStepRow.updated_at := t\<rparr>"
| "assign_step (set_status s) r = r\<lparr>WorkflowStepRow.status := s\<rparr>"
| "assign_step (set_started_at t) r = r\<lparr>WorkflowStepRow.started_at := Some t\<rparr>"
| "assign_step (set_completed_at t) r = r\<lparr>WorkflowStepRow.completed_at := Some t\<rparr>"
| "assign_step (set_output_type t) r = r\<lparr>WorkflowStepRow.output_type := Some t\<rparr>"
| "assign_step (set_output_data d) r = r\<lparr>WorkflowStepRow.output_data := Some d\<rparr>"
| "assign_step (set_attempt n) r = r\<lparr>WorkflowStepRow.attempt := n\<rparr>"
| "assign_step (set_error e) r = r\<lparr>WorkflowStepRow.error := Some e\<rparr>"
| "assign_step (set_error_code e) r = r\<lparr>WorkflowStepRow.error_code := Some e\<rparr>"

text \<open>\<^verbatim>\<open>UPDATE workflow_steps SET ... WHERE step_id = ?\<close>\<close>

definition update_step :: "string \<Rightarrow> step_assignment list \<Rightarrow> Env \<Rightarrow> Env" where
  "update_step ident setClauses env =
     env\<lparr>DB := (DB env)\<lparr>workflow_steps :=
       map (\<lambda>r. if step_id r = ident then fold assign_step setClauses r else r)
         (workflow_steps (DB env))\<rparr>\<rparr>"

text \<open>The clauses the \<^verbatim>\<open>if (data.status !== undefined)\<close> block of the step \<^verbatim>\<open>update\<close> pushes.\<close>

definition step_status_clauses :: "UpdateStepRequest \<Rightarrow> Step \<Rightarrow> int \<Rightarrow> step_assignment list" where
  "step_status_clauses dat current now =
     (case UpdateStepRequest.status dat of
        None \<Rightarrow> []
      | Some s \<Rightarrow>
          [set_status s]
          @ (if s = step_running \<and> Step.startedAt current = None then [set_started_at now] else [])
          @ (if s \<in> set [step_completed, step_failed] \<and> Step.completedAt current = None
             then [set_completed_at now] else []))"

definition step_field_clauses :: "UpdateStepRequest \<Rightarrow> step_assignment list" where
  "step_field_clauses dat =
     (case UpdateStepRequest.attempt dat of None \<Rightarrow> [] | Some n \<Rightarrow> [set_attempt n])
     @ (case UpdateStepRequest.error dat of None \<Rightarrow> [] | Some e \<Rightarrow> [set_error e])
     @ (case UpdateStepRequest.errorCode dat of None \<Rightarrow> [] | Some e \<Rightarrow> [set_error_code e])"

definition steps_update ::
  "platform \<Rightarrow> int \<Rightarrow> string \<Rightarrow> string \<Rightarrow> UpdateStepRequest \<Rightarrow> int \<Rightarrow> Env \<Rightarrow> (error + Step) \<times> Env" where
  "steps_update pf threshold run ident dat now env =
     (case steps_get pf (Some run) ident None env of
        Inl e \<Rightarrow> (Inl e, env)
      | Inr current \<Rightarrow>
          (case (if UpdateStepRequest.output' dat \<noteq> JUndefined
                 then (case storeData pf (WORKFLOW_STORAGE env) (UpdateStepRequest.output' dat)
                               ''step-outputs'' ident ''output'' threshold of
                         (Inl e, bucket) \<Rightarrow> (Inl e, bucket)
                       | (Inr outputRef, bucket) \<Rightarrow>
                           (Inr [set_output_type (type outputRef),
                                 set_output_data (DataReference.data outputRef)], bucket))
                 else (Inr [], WORKFLOW_STORAGE env)) of
             (Inl e, bucket) \<Rightarrow> (Inl e, env\<lparr>WORKFLOW_STORAGE := bucket\<rparr>)
           | (Inr outputClauses, bucket) \<Rightarrow>
               (let env1 = env\<lparr>WORKFLOW_STORAGE := bucket\<rparr>;
                    setClauses = [set_updated_at now] @ step_status_clauses dat current now
                                 @ outputClauses @ step_field_clauses dat;
                    env2 = update_step ident setClauses env1
                in (steps_get pf (Some run) ident None env2, env2))))"

subsection \<open>Listing steps\<close>

definition step_ids :: "Step \<Rightarrow> item_ids" where
  "step_ids s = \<lparr>id_runId = Some (Step.runId s), id_stepId = Some (stepId s),
                 id_eventId = None, id_hookId = None\<rparr>"

text \<open>\<^verbatim>\<open>list\<close>; its arguments are the fields of \<^verbatim>\<open>params\<close>.\<close>

definition steps_list ::
  "platform \<Rightarrow> string \<Rightarrow> PaginationOptions option \<Rightarrow> resolve_data option \<Rightarrow> Env \<Rightarrow>
     error + Step PaginatedResponse" where
  "steps_list pf run pg rd env =
     (let sortOrder = order_of desc pg
      in case buildCursorWhereClause pf (cursor_of pg) ''created_at'' ''step_id'' sortOrder of
           Inl e \<Rightarrow> Inl e
         | Inr (clause, cparams) \<Rightarrow>
             (let whereClauses = [''run_id = ?''] @ (if clause \<noteq> [] then [clause] else []);
                  queryParams = [JStr run] @ (if clause \<noteq> [] then cparams else [])
              in case d1_all workflow_steps_columns workflow_steps_values
                        (\<lambda>r. (WorkflowStepRow.created_at r, step_id r))
                        (workflow_steps (DB env))
                        \<lparr>where_text = Some (Array_join '' AND '' whereClauses),
                         order_direction = sortOrder,
                         limit_clause = limit_clause_of (fetchLimit pg)\<rparr>
                        queryParams of
                   None \<Rightarrow> Inl D1Error
                 | Some rows \<Rightarrow>
                     (case Promise_all pf
                             (map (\<lambda>row. rowToStep pf (WORKFLOW_STORAGE env) row rd) rows) of
                        Inl e \<Rightarrow> Inl e
                      | Inr steps \<Rightarrow>
                          Inr (createPaginatedResponse pf step_ids steps pg Step.createdAt))))"

section \<open>Pages\<close>












section \<open>The queue dispatcher (queue/index.ts)\<close>

record queue_opts =
  deploymentId :: "string option"
  idempotencyKey :: "string option"

text \<open>\<^verbatim>\<open>opts?.idempotencyKey\<close> and \<^verbatim>\<open>opts?.deploymentId\<close>\<close>

definition opt_idempotencyKey :: "queue_opts option \<Rightarrow> string option" where
  "opt_idempotencyKey opts = (case opts of None \<Rightarrow> None | Some p \<Rightarrow> idempotencyKey p)"

definition opt_deploymentId :: "queue_opts option \<Rightarrow> string option" where
  "opt_deploymentId opts = (case opts of None \<Rightarrow> None | Some p \<Rightarrow> queue_opts.deploymentId p)"

text \<open>
  \<^verbatim>\<open>SELECT message_id FROM queue_messages WHERE idempotency_key = ? AND queue_name = ?\<close>,
  first row.
\<close>

definition select_message :: "Env \<Rightarrow> string \<Rightarrow> string \<Rightarrow> QueueMessageRow option" where
  "select_message env key qname =
     find (\<lambda>r. idempotency_key r = Some key \<and> queue_name r = qname) (queue_messages (DB env))"

text \<open>\<^verbatim>\<open>INSERT INTO queue_messages\<close>: rejected when the primary key is taken.\<close>

definition insert_message :: "QueueMessageRow \<Rightarrow> Env \<Rightarrow> Env option" where
  "insert_message row env =
     (if message_id row \<in> set (map message_id (queue_messages (DB env)))
      then None
      else Some (env\<lparr>DB := (DB env)\<lparr>queue_messages := queue_messages (DB env) @ [row]\<rparr>\<rparr>))"

text \<open>
  \<^verbatim>\<open>queue\<close>: \<open>generated\<close> is what \<^verbatim>\<open>generateMessageId()\<close> returned for this call. The
  column \<open>message_data\<close> cannot take \<^verbatim>\<open>undefined\<close>.
\<close>

definition queue ::
  "platform \<Rightarrow> string \<Rightarrow> string \<Rightarrow> js_value \<Rightarrow> queue_opts option \<Rightarrow> Env \<Rightarrow> (error + string) \<times> Env" where
  "queue pf generated qname msg opts env =
     (case (if truthy_string (opt_idempotencyKey opts)
            then select_message env (the (opt_idempotencyKey opts)) qname
            else None) of
        Some existing \<Rightarrow> (Inr (message_id existing), env)
      | None \<Rightarrow>
          (case JSON_stringify pf msg of
             None \<Rightarrow> (Inl D1Error, env)
           | Some text \<Rightarrow>
               (case insert_message
                       \<lparr>message_id = generated,
                        queue_name = qname,
                        QueueMessageRow.deployment_id = string_or_undefined (opt_deploymentId opts),
                        idempotency_key = string_or_undefined (opt_idempotencyKey opts),
                        message_data = text,
                        processed_at = None\<rparr> env of
                  None \<Rightarrow> (Inl D1Error, env)
                | Some env1 \<Rightarrow>
                    (Inr generated,
                     env1\<lparr>QUEUE := QUEUE env1 @
                       [\<lparr>messageId = generated, queueName = qname, message = msg,
                         metadata_deploymentId = opt_deploymentId opts,
                         metadata_idempotencyKey = opt_idempotencyKey opts\<rparr>]\<rparr>))))"

section \<open>A reference platform\<close>

text \<open>
  The four built-ins, written out for the concrete evaluations below: \<^verbatim>\<open>btoa\<close> and
  \<^verbatim>\<open>atob\<close> are base64 (the decoder drops ASCII white space, accepts a missing padding
  and rejects every character outside the alphabet), on strings of code units below 256.
\<close>

definition base64_alphabet :: string where
  "base64_alphabet = ''ABCDEFGHIJKLMNOPQRSTUVWXYZabcdefghijklmnopqrstuvwxyz0123456789+/''"

definition base64_char :: "nat \<Rightarrow> char" where
  "base64_char n = base64_alphabet ! (n mod 64)"

fun js_btoa :: "string \<Rightarrow> string" where
  "js_btoa [] = []"
| "js_btoa [a] =
     (let x = (of_char a :: nat)
      in [base64_char (x div 4), base64_char (x mod 4 * 16), CHR ''='', CHR ''=''])"
| "js_btoa [a, b] =
     (let x = (of_char a :: nat); y = (of_char b :: nat)
      in [base64_char (x div 4), base64_char (x mod 4 * 16 + y div 16),
          base64_char (y mod 16 * 4), CHR ''=''])"
| "js_btoa (a # b # c # rest) =
     (let x = (of_char a :: nat); y = (of_char b :: nat); z = (of_char c :: nat)
      in [base64_char (x div 4), base64_char (x mod 4 * 16 + y div 16),
          base64_char (y mod 16 * 4 + z div 64), base64_char (z mod 64)] @ js_btoa rest)"

fun index_of :: "'a \<Rightarrow> 'a list \<Rightarrow> nat option" where
  "index_of x [] = None"
| "index_of x (y # ys) = (if x = y then Some 0 else map_option Suc (index_of x ys))"

fun sextets :: "string \<Rightarrow> nat list option" where
  "sextets [] = Some []"
| "sextets (c # cs) =
     (case index_of c base64_alphabet of
        None \<Rightarrow> None
      | Some n \<Rightarrow> map_option ((#) n) (sextets cs))"

fun octets :: "nat list \<Rightarrow> string" where
  "octets (a # b # c # d # rest) =
     [char_of (a * 4 + b div 16), char_of (b mod 16 * 16 + c div 4), char_of (c mod 4 * 64 + d)]
     @ octets rest"
| "octets [a, b, c] = [char_of (a * 4 + b div 16), char_of (b mod 16 * 16 + c div 4)]"
| "octets [a, b] = [char_of (a * 4 + b div 16)]"
| "octets _ = []"

definition ascii_whitespace :: "char \<Rightarrow> bool" where
  "ascii_whitespace c = (c \<in> set [CHR 0x09, CHR 0x0A, CHR 0x0C, CHR 0x0D, CHR '' ''])"

definition strip_padding :: "string \<Rightarrow> string" where
  "strip_padding s =
     (if length s mod 4 = 0 \<and> s \<noteq> [] \<and> last s = CHR ''=''
      then (if butlast s \<noteq> [] \<and> last (butlast s) = CHR ''='' then butlast (butlast s) else butlast s)
      else s)"

definition js_atob :: "string \<Rightarrow> string option" where
  "js_atob s =
     (let t = strip_padding (filter (\<lambda>c. \<not> ascii_whitespace c) s)
      in if length t mod 4 = 1 then None else map_option octets (sextets t))"

text \<open>
  \<^verbatim>\<open>JSON.stringify\<close> on the values of the model, and \<^verbatim>\<open>JSON.parse\<close> on JSON texts whose
  numbers are integer literals and whose strings use the two-character escapes only; a
  text with a fraction, an exponent or a \<^verbatim>\<open>\u\<close> escape is outside this parser, which
  rejects it. The parser runs on fuel, one unit per nesting step; the length of the text
  is enough.
\<close>

definition digit_char :: "nat \<Rightarrow> char" where
  "digit_char n = char_of (48 + n)"

fun show_nat :: "nat \<Rightarrow> string" where
  "show_nat n = (if n < 10 then [digit_char n] else show_nat (n div 10) @ [digit_char (n mod 10)])"

definition show_int :: "int \<Rightarrow> string" where
  "show_int i = (if i < 0 then CHR ''-'' # show_nat (nat (- i)) else show_nat (nat i))"

definition hex_char :: "nat \<Rightarrow> char" where
  "hex_char n = ''0123456789abcdef'' ! (n mod 16)"

definition escape_char :: "char \<Rightarrow> string" where
  "escape_char c =
     (if c = CHR 0x22 then [CHR 0x5C, CHR 0x22]
      else if c = CHR 0x5C then [CHR 0x5C, CHR 0x5C]
      else if c = CHR 0x08 then [CHR 0x5C, CHR ''b'']
      else if c = CHR 0x0C then [CHR 0x5C, CHR ''f'']
      else if c = CHR 0x0A then [CHR 0x5C, CHR ''n'']
      else if c = CHR 0x0D then [CHR 0x5C, CHR ''r'']
      else if c = CHR 0x09 then [CHR 0x5C, CHR ''t'']
      else if (of_char c :: nat) < 32
      then [CHR 0x5C, CHR ''u'', CHR ''0'', CHR ''0'', hex_char (of_char c div 16), hex_char (of_char c)]
      else [c])"

definition quote :: "string \<Rightarrow> string" where
  "quote s = [CHR 0x22] @ concat (map escape_char s) @ [CHR 0x22]"

fun join :: "string list \<Rightarrow> string" where
  "join [] = []"
| "join [x] = x"
| "join (x # y # ys) = x @ [CHR '',''] @ join (y # ys)"

fun js_stringify :: "js_value \<Rightarrow> string option" where
  "js_stringify JUndefined = None"
| "js_stringify JNull = Some ''null''"
| "js_stringify (JBool b) = Some (if b then ''true'' else ''false'')"
| "js_stringify (JNum n) = Some (show_int n)"
| "js_stringify (JStr s) = Some (quote s)"
| "js_stringify (JArr vs) =
     Some ([CHR ''[''] @ join (map (\<lambda>v. case js_stringify v of None \<Rightarrow> ''null'' | Some t \<Rightarrow> t) vs)
           @ [CHR '']''])"
| "js_stringify (JObj kvs) =
     Some ([CHR ''{''] @ join (concat (map (\<lambda>(k, v). case js_stringify v of
                                                    None \<Rightarrow> []
                                                  | Some t \<Rightarrow> [quote k @ [CHR '':''] @ t]) kvs))
           @ [CHR ''}''])"

text \<open>An integer literal: no leading zero, no fraction, no exponent.\<close>

definition read_number :: "string \<Rightarrow> (nat \<times> string) option" where
  "read_number s =
     (case s of
        [] \<Rightarrow> None
      | c # cs \<Rightarrow>
          if \<not> is_digit c then None
          else if c = CHR ''0'' \<and> cs \<noteq> [] \<and> is_digit (hd cs) then None
          else (case read_digits 0 s of
                  (n, rest) \<Rightarrow>
                    if rest \<noteq> [] \<and> hd rest \<in> set [CHR ''.'', CHR ''e'', CHR ''E''] then None
                    else Some (n, rest)))"

text \<open>The characters of a string literal after its opening quote; simple escapes only.\<close>

fun read_string :: "string \<Rightarrow> string \<Rightarrow> (string \<times> string) option" where
  "read_string acc [] = None"
| "read_string acc [c] = (if c = CHR 0x22 then Some (rev acc, []) else None)"
| "read_string acc (c # d # cs) =
     (if c = CHR 0x22 then Some (rev acc, d # cs)
      else if c = CHR 0x5C then
        (if d = CHR 0x22 \<or> d = CHR 0x5C \<or> d = CHR ''/'' then read_string (d # acc) cs
         else if d = CHR ''b'' then read_string (CHR 0x08 # acc) cs
         else if d = CHR ''f'' then read_string (CHR 0x0C # acc) cs
         else if d = CHR ''n'' then read_string (CHR 0x0A # acc) cs
         else if d = CHR ''r'' then read_string (CHR 0x0D # acc) cs
         else if d = CHR ''t'' then read_string (CHR 0x09 # acc) cs
         else None)
      else if (of_char c :: nat) < 32 then None
      else read_string (c # acc) (d # cs))"

definition skip_ws :: "string \<Rightarrow> string" where
  "skip_ws s = dropWhile (\<lambda>c. c \<in> set [CHR '' '', CHR 0x09, CHR 0x0A, CHR 0x0D]) s"

fun read_value :: "nat \<Rightarrow> string \<Rightarrow> (js_value \<times> string) option"
  and read_elements :: "nat \<Rightarrow> js_value list \<Rightarrow> string \<Rightarrow> (js_value \<times> string) option"
  and read_members :: "nat \<Rightarrow> (string \<times> js_value) list \<Rightarrow> string \<Rightarrow> (js_value \<times> string) option" where
  "read_value 0 s = None"
| "read_value (Suc n) s =
     (case skip_ws s of
        [] \<Rightarrow> None
      | c # cs \<Rightarrow>
          if c = CHR ''n'' then (if take 3 cs = ''ull'' then Some (JNull, skip_ws (drop 3 cs)) else None)
          else if c = CHR ''t'' then (if take 3 cs = ''rue'' then Some (JBool True, skip_ws (drop 3 cs)) else None)
          else if c = CHR ''f'' then (if take 4 cs = ''alse'' then Some (JBool False, skip_ws (drop 4 cs)) else None)
          else if c = CHR 0x22 then map_option (\<lambda>(t, rest). (JStr t, skip_ws rest)) (read_string [] cs)
          else if c = CHR ''['' then
            (case skip_ws cs of
               [] \<Rightarrow> None
             | d # ds \<Rightarrow> if d = CHR '']'' then Some (JArr [], skip_ws ds) else read_elements n [] (d # ds))
          else if c = CHR ''{'' then
            (case skip_ws cs of
               [] \<Rightarrow> None
             | d # ds \<Rightarrow> if d = CHR ''}'' then Some (JObj [], skip_ws ds) else read_members n [] (d # ds))
          else if c = CHR ''-'' then map_option (\<lambda>(k, rest). (JNum (- int k), skip_ws rest)) (read_number cs)
          else map_option (\<lambda>(k, rest). (JNum (int k), skip_ws rest)) (read_number (c # cs)))"
| "read_elements 0 acc s = None"
| "read_elements (Suc n) acc s =
     (case read_value n s of
        None \<Rightarrow> None
      | Some (v, rest) \<Rightarrow>
          (case rest of
             [] \<Rightarrow> None
           | c # cs \<Rightarrow>
               if c = CHR '','' then read_elements n (v # acc) cs
               else if c = CHR '']'' then Some (JArr (rev (v # acc)), skip_ws cs)
               else None))"
| "read_members 0 acc s = None"
| "read_members (Suc n) acc s =
     (case skip_ws s of
        [] \<Rightarrow> None
      | q # s1 \<Rightarrow>
          if q \<noteq> CHR 0x22 then None
          else (case read_string [] s1 of
                  None \<Rightarrow> None
                | Some (k, s2) \<Rightarrow>
                    (case skip_ws s2 of
                       [] \<Rightarrow> None
                     | c # s3 \<Rightarrow>
                         if c \<noteq> CHR '':'' then None
                         else (case read_value n s3 of
                                 None \<Rightarrow> None
                               | Some (v, rest) \<Rightarrow>
                                   (case rest of
                                      [] \<Rightarrow> None
                                    | d # ds \<Rightarrow>
                                        if d = CHR '','' then read_members n ((k, v) # acc) ds
                                        else if d = CHR ''}'' then Some (JObj (rev ((k, v) # acc)), skip_ws ds)
                                        else None)))))"

definition js_parse :: "string \<Rightarrow> js_value option" where
  "js_parse s =
     (case read_value (Suc (length s)) s of
        Some (v, []) \<Rightarrow> Some v
      | _ \<Rightarrow> None)"

text \<open>In the reference platform the first conversion in row order rejects first.\<close>

definition js :: platform where
  "js = \<lparr>JSON_stringify = js_stringify, JSON_parse = js_parse, btoa = js_btoa, atob = js_atob,
          first_rejection = (\<lambda>es. 0)\<rparr>"


section \<open>States of the examples\<close>

definition empty_env :: Env where
  "empty_env =
     \<lparr>DB = \<lparr>workflow_runs = [], workflow_steps = [], workflow_events = [],
             workflow_hooks = [], queue_messages = []\<rparr>,
      WORKFLOW_STORAGE = Map.empty,
      QUEUE = []\<rparr>"


text \<open>Three runs, created at 100, 200 and 300, each with the inline input \<^verbatim>\<open>[]\<close>.\<close>

definition sample_run :: "string \<Rightarrow> int \<Rightarrow> WorkflowRunRow" where
  "sample_run ident t =
     \<lparr>WorkflowRunRow.run_id = ident,
      WorkflowRunRow.deployment_id = ''dpl_cloudflare'',
      workflow_name = ''email-sequence'',
      WorkflowRunRow.status = Pending,
      WorkflowRunRow.input_type = Inline,
      WorkflowRunRow.input_data = Some ''[]'',
      WorkflowRunRow.output_type = None,
      WorkflowRunRow.output_data = None,
      execution_context = None,
      WorkflowRunRow.error = None,
      WorkflowRunRow.error_code = None,
      WorkflowRunRow.created_at = t,
      WorkflowRunRow.updated_at = t,
      WorkflowRunRow.started_at = None,
      WorkflowRunRow.completed_at = None\<rparr>"

definition three_runs :: Env where
  "three_runs =
     empty_env\<lparr>DB := (DB empty_env)\<lparr>workflow_runs :=
       [sample_run ''wrun_1'' 100, sample_run ''wrun_2'' 200, sample_run ''wrun_3'' 300]\<rparr>\<rparr>"







text \<open>The options of a call for the page after the run \<^verbatim>\<open>wrun_2\<close>, created at 200.\<close>

definition after_wrun_2 :: "PaginationOptions option" where
  "after_wrun_2 =
     Some \<lparr>limit = Some 2,
           PaginationOptions.cursor =
             Some (encodeCursor js \<lparr>lastId = ''wrun_2'', lastTimestamp = 200\<rparr>),
           sortOrder = None\<rparr>"

text \<open>The status and the two lifecycle columns of a run, as the table holds them.\<close>

definition run_status_of :: "Env \<Rightarrow> string \<Rightarrow> WorkflowRunStatus option" where
  "run_status_of env ident = map_option WorkflowRunRow.status (select_run env ident)"

definition run_started_at_of :: "Env \<Rightarrow> string \<Rightarrow> int option" where
  "run_started_at_of env ident =
     (case select_run env ident of None \<Rightarrow> None | Some r \<Rightarrow> WorkflowRunRow.started_at r)"

definition run_completed_at_of :: "Env \<Rightarrow> string \<Rightarrow> int option" where
  "run_completed_at_of env ident =
     (case select_run env ident of None \<Rightarrow> None | Some r \<Rightarrow> WorkflowRunRow.completed_at r)"

text \<open>
  A run is created at 1000, set to running at 2000 and again at 3000, set to completed
  at 4000 and again at 5000.
\<close>

definition sample_request :: CreateWorkflowRunRequest where
  "sample_request =
     \<lparr>CreateWorkflowRunRequest.deploymentId = ''dpl_cloudflare'',
      CreateWorkflowRunRequest.workflowName = ''email-sequence'',
      CreateWorkflowRunRequest.input = JArr [JStr ''user@example.com''],
      CreateWorkflowRunRequest.executionContext = JUndefined\<rparr>"

definition lifecycle_1 :: Env where
  "lifecycle_1 = snd (runs_create js 10240 ''wrun_1'' 1000 sample_request empty_env)"

definition lifecycle_2 :: Env where
  "lifecycle_2 = snd (runs_update js 10240 ''wrun_1'' (status_only Running) 2000 lifecycle_1)"

definition lifecycle_3 :: Env where
  "lifecycle_3 = snd (runs_update js 10240 ''wrun_1'' (status_only Running) 3000 lifecycle_2)"

definition lifecycle_4 :: Env where
  "lifecycle_4 = snd (runs_update js 10240 ''wrun_1'' (status_only Completed) 4000 lifecycle_3)"

definition lifecycle_5 :: Env where
  "lifecycle_5 = snd (runs_update js 10240 ''wrun_1'' (status_only Completed) 5000 lifecycle_4)"

text \<open>The status and \<open>completed_at\<close> of a step, as the table holds them.\<close>

definition step_status_of :: "Env \<Rightarrow> string \<Rightarrow> StepStatus option" where
  "step_status_of env ident = map_option WorkflowStepRow.status (select_step env ident)"

definition step_completed_at_of :: "Env \<Rightarrow> string \<Rightarrow> int option" where
  "step_completed_at_of env ident =
     (case select_step env ident of None \<Rightarrow> None | Some r \<Rightarrow> WorkflowStepRow.completed_at r)"

definition step_status_only :: "StepStatus \<Rightarrow> UpdateStepRequest" where
  "step_status_only s =
     \<lparr>UpdateStepRequest.status = Some s, UpdateStepRequest.output' = JUndefined,
      UpdateStepRequest.attempt = None, UpdateStepRequest.error = None,
      UpdateStepRequest.errorCode = None\<rparr>"

text \<open>The run \<^verbatim>\<open>wrun_1\<close>, created at 1000, with its one pending step \<^verbatim>\<open>wstp_1\<close>.\<close>

definition one_step :: Env where
  "one_step =
     empty_env\<lparr>DB := (DB empty_env)\<lparr>
       workflow_runs := [sample_run ''wrun_1'' 1000],
       workflow_steps :=
         [\<lparr>step_id = ''wstp_1'',
           WorkflowStepRow.run_id = ''wrun_1'',
           step_name = ''send-email'',
           WorkflowStepRow.status = step_pending,
           WorkflowStepRow.input_type = Inline,
           WorkflowStepRow.input_data = Some ''[]'',
           WorkflowStepRow.output_type = None,
           WorkflowStepRow.output_data = None,
           WorkflowStepRow.attempt = 1,
           WorkflowStepRow.error = None,
           WorkflowStepRow.error_code = None,
           WorkflowStepRow.created_at = 1000,
           WorkflowStepRow.updated_at = 1000,
           WorkflowStepRow.started_at = None,
           WorkflowStepRow.completed_at = None\<rparr>]\<rparr>\<rparr>"

text \<open>The options of an enqueue with the idempotency key \<open>k\<close>.\<close>

definition with_key :: "string \<Rightarrow> queue_opts option" where
  "with_key k = Some \<lparr>queue_opts.deploymentId = None, idempotencyKey = Some k\<rparr>"

section \<open>The coordinator: reads and step operations without a state\<close>

text \<open>
  C10. On an object whose \<open>workflowState\<close> is still \<^verbatim>\<open>null\<close> (no \<^verbatim>\<open>initialize\<close> yet),
  \<^verbatim>\<open>getMetadata\<close> returns \<^verbatim>\<open>undefined\<close> for every key and \<^verbatim>\<open>canAcceptSteps\<close> returns
  \<^verbatim>\<open>false\<close>; neither throws, while \<^verbatim>\<open>startStep\<close>, \<^verbatim>\<open>completeStep\<close> and \<^verbatim>\<open>failStep\<close>
  throw there.
\<close>

theorem uninitialized_reads:
  "workflowState this = None \<Longrightarrow>
     getMetadata k this = JUndefined \<and> canAcceptSteps this = False \<and>
     fst (startStep s this) = Inl NotInitialized \<and>
     fst (completeStep s this) = Inl NotInitialized \<and>
     fst (failStep s this) = Inl NotInitialized"
  by (simp add: getMetadata_def canAcceptSteps_def startStep_def completeStep_def failStep_def)

theorem uninitialized_reads_witness:
  "workflowState (constructor Map.empty ()) = None \<and>
   getMetadata ''k'' (constructor Map.empty ()) = JUndefined \<and>
   canAcceptSteps (constructor Map.empty ()) = False \<and>
   fst (startStep ''s'' (constructor Map.empty ())) = Inl NotInitialized \<and>
   fst (completeStep ''s'' (constructor Map.empty ())) = Inl NotInitialized \<and>
   fst (failStep ''s'' (constructor Map.empty ())) = Inl NotInitialized"
  using uninitialized_reads [of "constructor Map.empty ()" "''k''" "''s''"]
  by (simp add: constructor_def)

section \<open>The coordinator: the three step sets\<close>

lemma workflowState_persistState [simp]: "workflowState (persistState this) = workflowState this"
  by (simp add: persistState_def split: option.splits)

lemma members_Set_add: "Set_add x c = Inr c' \<Longrightarrow> members c' = insert x (members c)"
  by (cases c) (auto simp: members_def split: if_splits)

lemma members_Set_delete: "Set_delete x c = Inr c' \<Longrightarrow> members c' = members c - {x}"
  by (cases c) (auto simp: members_def)

lemma startStep_disjoint:
  "steps_disjoint this \<Longrightarrow> keeps_apart (StartStep s) this \<Longrightarrow> steps_disjoint (snd (startStep s this))"
  by (auto simp: steps_disjoint_def startStep_def pairwise_disjoint_def
      split: option.splits sum.splits dest!: members_Set_add)

lemma completeStep_disjoint:
  "steps_disjoint this \<Longrightarrow> keeps_apart (CompleteStep s) this \<Longrightarrow> steps_disjoint (snd (completeStep s this))"
  by (auto simp: steps_disjoint_def completeStep_def pairwise_disjoint_def
      split: option.splits sum.splits dest!: members_Set_add members_Set_delete)

lemma failStep_disjoint:
  "steps_disjoint this \<Longrightarrow> keeps_apart (FailStep s) this \<Longrightarrow> steps_disjoint (snd (failStep s this))"
  by (auto simp: steps_disjoint_def failStep_def pairwise_disjoint_def
      split: option.splits sum.splits dest!: members_Set_add members_Set_delete)

lemma step_call_disjoint:
  "steps_disjoint this \<Longrightarrow> keeps_apart c this \<Longrightarrow> steps_disjoint (snd (step_call c this))"
  by (cases c) (simp_all add: startStep_disjoint completeStep_disjoint failStep_disjoint)

lemma snd_step_calls_Cons:
  "snd (step_calls (c # cs) this) = snd (step_calls cs (snd (step_call c this)))"
  by (simp split: prod.splits)

lemma step_calls_disjoint:
  "steps_disjoint this \<Longrightarrow> all_keep_apart cs this \<Longrightarrow> steps_disjoint (snd (step_calls cs this))"
proof (induction cs arbitrary: this)
  case Nil
  then show ?case by simp
next
  case (Cons c cs)
  from Cons.prems have "steps_disjoint (snd (step_call c this))"
    by (simp add: step_call_disjoint)
  moreover from Cons.prems have "all_keep_apart cs (snd (step_call c this))" by simp
  ultimately have "steps_disjoint (snd (step_calls cs (snd (step_call c this))))"
    by (rule Cons.IH)
  then show ?case by (simp only: snd_step_calls_Cons)
qed

lemma initialize_fresh_disjoint:
  "storage this ''state'' = None \<Longrightarrow> steps_disjoint (snd (initialize rid this))"
  by (simp add: initialize_def steps_disjoint_def pairwise_disjoint_def members_def)

lemma start_then_complete:
  assumes "fst (startStep s this) = Inr ()"
    and "fst (completeStep s (snd (startStep s this))) = Inr ()"
  shows "\<exists>ws. workflowState (snd (completeStep s (snd (startStep s this)))) = Some ws \<and>
           s \<in> members (completedSteps ws) \<and> s \<notin> members (activeSteps ws)"
  using assms
  by (auto simp: startStep_def completeStep_def split: option.splits sum.splits
      dest!: members_Set_add members_Set_delete)

lemma fresh_object_eq:
  "fresh_object =
     \<lparr>storage = [''state'' \<mapsto> \<lparr>WorkflowState.runId = ''wrun_1'', WorkflowState.status = Pending,
          activeSteps = JSArray [], completedSteps = JSArray [], failedSteps = JSArray [],
          WorkflowState.metadata = Map.empty\<rparr>],
      this_env = (),
      workflowState = Some \<lparr>WorkflowState.runId = ''wrun_1'', WorkflowState.status = Pending,
          activeSteps = JSSet [], completedSteps = JSSet [], failedSteps = JSSet [],
          WorkflowState.metadata = Map.empty\<rparr>\<rparr>"
  by (simp add: fresh_object_def initialize_def constructor_def persistState_def)

text \<open>
  C1, as the code has it. No operation looks at a collection other than the ones it
  writes, so the three sets stay pairwise disjoint only along calls that keep each
  identifier in one place: \<^verbatim>\<open>startStep\<close> on an identifier that is in neither
  \<open>completedSteps\<close> nor \<open>failedSteps\<close>, \<^verbatim>\<open>completeStep\<close> on one that is not in
  \<open>failedSteps\<close>, \<^verbatim>\<open>failStep\<close> on one that is not in \<open>completedSteps\<close>. The sets are
  disjoint after \<^verbatim>\<open>initialize\<close> on an empty storage, every such sequence of calls keeps
  them disjoint, and whenever \<^verbatim>\<open>startStep(s)\<close> and then \<^verbatim>\<open>completeStep(s)\<close> return, \<open>s\<close>
  is in \<open>completedSteps\<close> and not in \<open>activeSteps\<close>.
\<close>

theorem step_sets_stay_disjoint:
  "(storage this ''state'' = None \<longrightarrow> steps_disjoint (snd (initialize rid this))) \<and>
   (steps_disjoint this \<and> all_keep_apart cs this \<longrightarrow> steps_disjoint (snd (step_calls cs this))) \<and>
   (fst (startStep s this) = Inr () \<and> fst (completeStep s (snd (startStep s this))) = Inr () \<longrightarrow>
      (\<exists>ws. workflowState (snd (completeStep s (snd (startStep s this)))) = Some ws \<and>
            s \<in> members (completedSteps ws) \<and> s \<notin> members (activeSteps ws)))"
  using initialize_fresh_disjoint step_calls_disjoint start_then_complete by blast

theorem step_sets_stay_disjoint_witness:
  "storage (constructor Map.empty ()) ''state'' = None \<and>
   steps_disjoint fresh_object \<and>
   all_keep_apart [StartStep ''a'', StartStep ''b'', CompleteStep ''a'', FailStep ''b''] fresh_object \<and>
   steps_disjoint
     (snd (step_calls [StartStep ''a'', StartStep ''b'', CompleteStep ''a'', FailStep ''b''] fresh_object)) \<and>
   fst (startStep ''a'' fresh_object) = Inr () \<and>
   fst (completeStep ''a'' (snd (startStep ''a'' fresh_object))) = Inr () \<and>
   (\<exists>ws. workflowState (snd (completeStep ''a'' (snd (startStep ''a'' fresh_object)))) = Some ws \<and>
         ''a'' \<in> members (completedSteps ws) \<and> ''a'' \<notin> members (activeSteps ws))"
proof -
  have init: "storage (constructor Map.empty ()) ''state'' = None"
    by (simp add: constructor_def)
  have apart:
    "all_keep_apart [StartStep ''a'', StartStep ''b'', CompleteStep ''a'', FailStep ''b''] fresh_object"
    by (simp add: fresh_object_eq startStep_def completeStep_def failStep_def persistState_def members_def)
  have ok1: "fst (startStep ''a'' fresh_object) = Inr ()"
    by (simp add: fresh_object_eq startStep_def)
  have ok2: "fst (completeStep ''a'' (snd (startStep ''a'' fresh_object))) = Inr ()"
    by (simp add: fresh_object_eq startStep_def completeStep_def persistState_def)
  have disj: "steps_disjoint fresh_object"
    using step_sets_stay_disjoint [of "constructor Map.empty ()" "''wrun_1''"] init
    by (simp add: fresh_object_def)
  from step_sets_stay_disjoint
         [of fresh_object "''wrun_1''"
             "[StartStep ''a'', StartStep ''b'', CompleteStep ''a'', FailStep ''b'']" "''a''"]
       init disj apart ok1 ok2
  show ?thesis by blast
qed

text \<open>
  C1 as stated fails: after \<^verbatim>\<open>initialize\<close> on an empty storage, \<^verbatim>\<open>startStep('a')\<close>,
  \<^verbatim>\<open>completeStep('a')\<close> and \<^verbatim>\<open>startStep('a')\<close> all return, and \<open>a\<close> is then both in
  \<open>activeSteps\<close> and in \<open>completedSteps\<close>.
\<close>

theorem step_sets_overlap_counterexample:
  "fst (step_calls [StartStep ''a'', CompleteStep ''a'', StartStep ''a''] fresh_object)
     = [Inr (), Inr (), Inr ()] \<and>
   \<not> steps_disjoint (snd (step_calls [StartStep ''a'', CompleteStep ''a'', StartStep ''a''] fresh_object)) \<and>
   ''a'' \<in> members (activeSteps (the (workflowState
             (snd (step_calls [StartStep ''a'', CompleteStep ''a'', StartStep ''a''] fresh_object))))) \<and>
   ''a'' \<in> members (completedSteps (the (workflowState
             (snd (step_calls [StartStep ''a'', CompleteStep ''a'', StartStep ''a''] fresh_object)))))"
  by (simp add: fresh_object_eq persistState_def startStep_def completeStep_def
      steps_disjoint_def pairwise_disjoint_def members_def)

text \<open>
  With \<open>workflowState\<close> still \<^verbatim>\<open>null\<close>, each of \<^verbatim>\<open>startStep\<close>, \<^verbatim>\<open>completeStep\<close> and
  \<^verbatim>\<open>failStep\<close> throws the not-initialised error and leaves the object, its storage
  included, as it was. On a state whose collections are \<^verbatim>\<open>Set\<close>s, each of them returns
  for every identifier, whatever \<open>this_env\<close> holds (no method reads it, so no step row is
  looked up): the identifier is inserted or moved, and a second call changes nothing.
  No call ever fails with an error other than the not-initialised error or the
  \<^verbatim>\<open>TypeError\<close> of a collection that is not a \<^verbatim>\<open>Set\<close>.
\<close>

lemma step_operations_cases:
  "(workflowState this = None \<longrightarrow>
      startStep s this = (Inl NotInitialized, this) \<and>
      completeStep s this = (Inl NotInitialized, this) \<and>
      failStep s this = (Inl NotInitialized, this)) \<and>
   (workflowState this = Some ws \<and> live ws \<longrightarrow>
      fst (startStep s this) = Inr () \<and>
      fst (completeStep s this) = Inr () \<and>
      fst (failStep s this) = Inr () \<and>
      members (activeSteps (the (workflowState (snd (startStep s this)))))
        = insert s (members (activeSteps ws)) \<and>
      members (activeSteps (the (workflowState (snd (completeStep s this)))))
        = members (activeSteps ws) - {s} \<and>
      members (completedSteps (the (workflowState (snd (completeStep s this)))))
        = insert s (members (completedSteps ws)) \<and>
      members (activeSteps (the (workflowState (snd (failStep s this)))))
        = members (activeSteps ws) - {s} \<and>
      members (failedSteps (the (workflowState (snd (failStep s this)))))
        = insert s (members (failedSteps ws)) \<and>
      startStep s (snd (startStep s this)) = (Inr (), snd (startStep s this)) \<and>
      completeStep s (snd (completeStep s this)) = (Inr (), snd (completeStep s this)) \<and>
      failStep s (snd (failStep s this)) = (Inr (), snd (failStep s this))) \<and>
   fst (startStep s this) \<in> {Inr (), Inl NotInitialized, Inl TypeError} \<and>
   fst (completeStep s this) \<in> {Inr (), Inl NotInitialized, Inl TypeError} \<and>
   fst (failStep s this) \<in> {Inr (), Inl NotInitialized, Inl TypeError}"
proof (intro conjI impI)
  assume "workflowState this = None"
  then show "startStep s this = (Inl NotInitialized, this)"
    and "completeStep s this = (Inl NotInitialized, this)"
    and "failStep s this = (Inl NotInitialized, this)"
    by (simp_all add: startStep_def completeStep_def failStep_def)
next
  assume h: "workflowState this = Some ws \<and> live ws"
  then obtain a c f where sets: "activeSteps ws = JSSet a" "completedSteps ws = JSSet c"
      "failedSteps ws = JSSet f"
    by (cases "activeSteps ws"; cases "completedSteps ws"; cases "failedSteps ws")
       (auto simp: live_def)
  from h sets show "fst (startStep s this) = Inr ()" by (simp add: startStep_def)
  from h sets show "fst (completeStep s this) = Inr ()" by (simp add: completeStep_def)
  from h sets show "fst (failStep s this) = Inr ()" by (simp add: failStep_def)
  from h sets show "members (activeSteps (the (workflowState (snd (startStep s this)))))
        = insert s (members (activeSteps ws))"
    by (auto simp: startStep_def members_def)
  from h sets show "members (activeSteps (the (workflowState (snd (completeStep s this)))))
        = members (activeSteps ws) - {s}"
    by (auto simp: completeStep_def members_def)
  from h sets show "members (completedSteps (the (workflowState (snd (completeStep s this)))))
        = insert s (members (completedSteps ws))"
    by (auto simp: completeStep_def members_def)
  from h sets show "members (activeSteps (the (workflowState (snd (failStep s this)))))
        = members (activeSteps ws) - {s}"
    by (auto simp: failStep_def members_def)
  from h sets show "members (failedSteps (the (workflowState (snd (failStep s this)))))
        = insert s (members (failedSteps ws))"
    by (auto simp: failStep_def members_def)
  from h sets show "startStep s (snd (startStep s this)) = (Inr (), snd (startStep s this))"
    by (simp add: startStep_def persistState_def)
  from h sets show "completeStep s (snd (completeStep s this)) = (Inr (), snd (completeStep s this))"
    by (simp add: completeStep_def persistState_def)
  from h sets show "failStep s (snd (failStep s this)) = (Inr (), snd (failStep s this))"
    by (simp add: failStep_def persistState_def)
next
  show "fst (startStep s this) \<in> {Inr (), Inl NotInitialized, Inl TypeError}"
    by (cases "workflowState this"; cases "activeSteps (the (workflowState this))")
       (simp_all add: startStep_def)
  show "fst (completeStep s this) \<in> {Inr (), Inl NotInitialized, Inl TypeError}"
    by (cases "workflowState this"; cases "activeSteps (the (workflowState this))";
        cases "completedSteps (the (workflowState this))")
       (simp_all add: completeStep_def)
  show "fst (failStep s this) \<in> {Inr (), Inl NotInitialized, Inl TypeError}"
    by (cases "workflowState this"; cases "activeSteps (the (workflowState this))";
        cases "failedSteps (the (workflowState this))")
       (simp_all add: failStep_def)
qed

lemma initialized_object_eq:
  "snd (initialize ''wrun_1'' (constructor Map.empty empty_env)) =
     \<lparr>storage = [''state'' \<mapsto> \<lparr>WorkflowState.runId = ''wrun_1'', WorkflowState.status = Pending,
          activeSteps = JSArray [], completedSteps = JSArray [], failedSteps = JSArray [],
          WorkflowState.metadata = Map.empty\<rparr>],
      this_env = empty_env,
      workflowState = Some \<lparr>WorkflowState.runId = ''wrun_1'', WorkflowState.status = Pending,
          activeSteps = JSSet [], completedSteps = JSSet [], failedSteps = JSSet [],
          WorkflowState.metadata = Map.empty\<rparr>\<rparr>"
  by (simp add: initialize_def constructor_def persistState_def)

lemma step_operations_on_created_state:
  "select_step empty_env ''wstp_9'' = None \<and>
   workflowState (constructor Map.empty empty_env) = None \<and>
   startStep ''wstp_9'' (constructor Map.empty empty_env)
     = (Inl NotInitialized, constructor Map.empty empty_env) \<and>
   completeStep ''wstp_9'' (constructor Map.empty empty_env)
     = (Inl NotInitialized, constructor Map.empty empty_env) \<and>
   failStep ''wstp_9'' (constructor Map.empty empty_env)
     = (Inl NotInitialized, constructor Map.empty empty_env) \<and>
   live (the (workflowState (snd (initialize ''wrun_1'' (constructor Map.empty empty_env))))) \<and>
   fst (startStep ''wstp_9'' (snd (initialize ''wrun_1'' (constructor Map.empty empty_env)))) = Inr () \<and>
   fst (completeStep ''wstp_9'' (snd (initialize ''wrun_1'' (constructor Map.empty empty_env)))) = Inr () \<and>
   fst (failStep ''wstp_9'' (snd (initialize ''wrun_1'' (constructor Map.empty empty_env)))) = Inr () \<and>
   members (completedSteps (the (workflowState
      (snd (completeStep ''wstp_9'' (snd (initialize ''wrun_1'' (constructor Map.empty empty_env))))))))
     = {''wstp_9''}"
proof -
  have none: "workflowState (constructor Map.empty empty_env) = None"
    by (simp add: constructor_def)
  have some: "workflowState (snd (initialize ''wrun_1'' (constructor Map.empty empty_env)))
      = Some \<lparr>WorkflowState.runId = ''wrun_1'', WorkflowState.status = Pending,
          activeSteps = JSSet [], completedSteps = JSSet [], failedSteps = JSSet [],
          WorkflowState.metadata = Map.empty\<rparr>"
    by (simp add: initialized_object_eq)
  have lv: "live \<lparr>WorkflowState.runId = ''wrun_1'', WorkflowState.status = Pending,
          activeSteps = JSSet [], completedSteps = JSSet [], failedSteps = JSSet [],
          WorkflowState.metadata = Map.empty\<rparr>"
    by (simp add: live_def)
  have nostep: "select_step empty_env ''wstp_9'' = None"
    by (simp add: select_step_def empty_env_def)
  from step_operations_cases [of "constructor Map.empty empty_env" "''wstp_9''"] none
       step_operations_cases
         [of "snd (initialize ''wrun_1'' (constructor Map.empty empty_env))"
             "''wstp_9''"
             "\<lparr>WorkflowState.runId = ''wrun_1'', WorkflowState.status = Pending,
               activeSteps = JSSet [], completedSteps = JSSet [], failedSteps = JSSet [],
               WorkflowState.metadata = Map.empty\<rparr>"]
       some lv nostep
  show ?thesis by (simp add: members_def)
qed

lemma fresh_object_storage:
  "storage fresh_object =
     [''state'' \<mapsto> \<lparr>WorkflowState.runId = ''wrun_1'', WorkflowState.status = Pending,
        activeSteps = JSArray [], completedSteps = JSArray [], failedSteps = JSArray [],
        WorkflowState.metadata = Map.empty\<rparr>]"
  by (simp add: fresh_object_def initialize_def constructor_def persistState_def)

lemma reloaded_object_eq:
  "reloaded_object =
     \<lparr>storage = storage fresh_object,
      this_env = (),
      workflowState = Some \<lparr>WorkflowState.runId = ''wrun_1'', WorkflowState.status = Pending,
        activeSteps = JSArray [], completedSteps = JSArray [], failedSteps = JSArray [],
        WorkflowState.metadata = Map.empty\<rparr>\<rparr>"
  by (simp add: reloaded_object_def fresh_object_storage initialize_def constructor_def)

lemma reinitialized_object_eq:
  "reinitialized_object = reloaded_object"
  by (simp add: reinitialized_object_def reloaded_object_eq fresh_object_storage fresh_object_eq
      initialize_def)

text \<open>
  C7. The first half of the claim holds (lemma \<open>step_operations_cases\<close>); the second
  fails on a coordinator that loaded its state. \<^verbatim>\<open>persistState\<close> writes the three
  collections as arrays and \<^verbatim>\<open>initialize\<close> assigns what it loads without turning them
  back into \<^verbatim>\<open>Set\<close>s. So on an instance constructed over the storage that an earlier
  instance initialised, and on an instance whose \<^verbatim>\<open>initialize\<close> is called a second time,
  \<^verbatim>\<open>initialize('wrun_1')\<close> returns, the state is set, and \<^verbatim>\<open>startStep('wstp_9')\<close>,
  \<^verbatim>\<open>completeStep('wstp_9')\<close> and \<^verbatim>\<open>failStep('wstp_9')\<close> each throw a \<^verbatim>\<open>TypeError\<close>
  (an array has no \<^verbatim>\<open>add\<close> and no \<^verbatim>\<open>delete\<close>) where the claim has them succeed.
\<close>

theorem reloaded_coordinator_rejects_steps:
  "fst (initialize ''wrun_1'' (constructor (storage fresh_object) ())) = Inr () \<and>
   workflowState reloaded_object
     = Some \<lparr>WorkflowState.runId = ''wrun_1'', WorkflowState.status = Pending,
         activeSteps = JSArray [], completedSteps = JSArray [], failedSteps = JSArray [],
         WorkflowState.metadata = Map.empty\<rparr> \<and>
   startStep ''wstp_9'' reloaded_object = (Inl TypeError, reloaded_object) \<and>
   completeStep ''wstp_9'' reloaded_object = (Inl TypeError, reloaded_object) \<and>
   failStep ''wstp_9'' reloaded_object = (Inl TypeError, reloaded_object) \<and>
   fst (initialize ''wrun_1'' fresh_object) = Inr () \<and>
   startStep ''wstp_9'' reinitialized_object = (Inl TypeError, reinitialized_object) \<and>
   completeStep ''wstp_9'' reinitialized_object = (Inl TypeError, reinitialized_object) \<and>
   failStep ''wstp_9'' reinitialized_object = (Inl TypeError, reinitialized_object)"
  by (simp add: reinitialized_object_eq)
     (simp add: reloaded_object_eq initialize_def startStep_def completeStep_def failStep_def
        constructor_def fresh_object_storage)
section \<open>The payload store: round trip, threshold and missing blobs\<close>

lemma storeData_inline:
  "JSON_stringify pf P = Some text \<Longrightarrow> int (length text) \<le> t \<Longrightarrow>
     storeData pf bucket P keyPrefix ident field t = (Inr \<lparr>type = Inline, data = text\<rparr>, bucket)"
  by (simp add: storeData_def)

lemma storeData_r2:
  "JSON_stringify pf P = Some text \<Longrightarrow> t < int (length text) \<Longrightarrow>
     storeData pf bucket P keyPrefix ident field t =
       (Inr \<lparr>type = R2, data = generateR2Key keyPrefix ident field\<rparr>,
        bucket(generateR2Key keyPrefix ident field \<mapsto> text))"
  by (simp add: storeData_def Let_def)

lemma sample_payload_text: "JSON_stringify js (JArr [JNum 1, JNum 2]) = Some ''[1,2]''"
  by code_simp

lemma sample_payload_parse: "JSON_parse js ''[1,2]'' = Some (JArr [JNum 1, JNum 2])"
  by code_simp

text \<open>
  C2. Let \<open>P\<close> be a value that \<^verbatim>\<open>JSON.stringify\<close> turns into a text which \<^verbatim>\<open>JSON.parse\<close>
  turns back into \<open>P\<close>. For every threshold, \<^verbatim>\<open>storeData\<close> returns a reference, and
  \<^verbatim>\<open>retrieveData\<close> on that reference, with the bucket as \<^verbatim>\<open>storeData\<close> left it, returns
  \<open>P\<close>. The reference is inline exactly when the length of the text is at most the
  threshold (a length equal to the threshold gives inline) and \<^verbatim>\<open>r2\<close> otherwise; an inline
  reference carries the text and leaves the bucket alone, an \<^verbatim>\<open>r2\<close> reference carries the
  key under which the bucket now holds the text.
\<close>

theorem store_then_retrieve:
  assumes "JSON_stringify pf P = Some text" and "JSON_parse pf text = Some P"
  shows "\<exists>ref bucket'.
           storeData pf bucket P keyPrefix ident field t = (Inr ref, bucket') \<and>
           retrieveData pf bucket' (Some ref) = Inr P \<and>
           (type ref = Inline) = (int (length text) \<le> t) \<and>
           (type ref = R2) = (t < int (length text)) \<and>
           (if int (length text) \<le> t
            then DataReference.data ref = text \<and> bucket' = bucket
            else DataReference.data ref = generateR2Key keyPrefix ident field \<and> bucket' (DataReference.data ref) = Some text)"
proof (cases "int (length text) \<le> t")
  case True
  with assms show ?thesis
    by (simp add: storeData_inline retrieveData_def parse_text_def)
next
  case False
  with assms show ?thesis
    by (simp add: storeData_r2 retrieveData_def parse_text_def)
qed

theorem store_then_retrieve_witness:
  "JSON_stringify js (JArr [JNum 1, JNum 2]) = Some ''[1,2]'' \<and>
   JSON_parse js ''[1,2]'' = Some (JArr [JNum 1, JNum 2]) \<and>
   (\<exists>ref bucket'.
      storeData js Map.empty (JArr [JNum 1, JNum 2]) ''inputs'' ''wrun_1'' ''input'' 5 = (Inr ref, bucket') \<and>
      retrieveData js bucket' (Some ref) = Inr (JArr [JNum 1, JNum 2]) \<and>
      type ref = Inline \<and> DataReference.data ref = ''[1,2]'') \<and>
   (\<exists>ref bucket'.
      storeData js Map.empty (JArr [JNum 1, JNum 2]) ''inputs'' ''wrun_1'' ''input'' 4 = (Inr ref, bucket') \<and>
      retrieveData js bucket' (Some ref) = Inr (JArr [JNum 1, JNum 2]) \<and>
      type ref = R2 \<and> DataReference.data ref = ''inputs/wrun_1/input'' \<and>
      bucket' ''inputs/wrun_1/input'' = Some ''[1,2]'')"
  using store_then_retrieve [OF sample_payload_text sample_payload_parse,
          of Map.empty "''inputs''" "''wrun_1''" "''input''" 5]
        store_then_retrieve [OF sample_payload_text sample_payload_parse,
          of Map.empty "''inputs''" "''wrun_1''" "''input''" 4]
        sample_payload_text sample_payload_parse
  by (auto simp: generateR2Key_def)

text \<open>
  C8. \<^verbatim>\<open>retrieveData\<close> on an \<^verbatim>\<open>r2\<close> reference whose key the bucket does not hold throws
  (it returns neither \<^verbatim>\<open>null\<close> nor an empty value); on an inline reference and on
  \<^verbatim>\<open>null\<close> its result is the same for every bucket, so the bucket is not consulted, and
  on \<^verbatim>\<open>null\<close> that result is \<^verbatim>\<open>null\<close>.
\<close>

theorem missing_blob_is_fatal:
  "(type r = R2 \<and> bucket (DataReference.data r) = None \<longrightarrow>
      retrieveData pf bucket (Some r) = Inl (R2ObjectNotFound (DataReference.data r))) \<and>
   (type r = Inline \<longrightarrow> retrieveData pf bucket (Some r) = retrieveData pf bucket' (Some r)) \<and>
   retrieveData pf bucket None = retrieveData pf bucket' None \<and>
   retrieveData pf bucket None = Inr JNull"
  by (simp add: retrieveData_def)

theorem missing_blob_is_fatal_witness:
  "type \<lparr>type = R2, data = ''inputs/wrun_1/input''\<rparr> = R2 \<and>
   Map.empty ''inputs/wrun_1/input'' = (None :: string option) \<and>
   retrieveData js Map.empty (Some \<lparr>type = R2, data = ''inputs/wrun_1/input''\<rparr>)
     = Inl (R2ObjectNotFound ''inputs/wrun_1/input'') \<and>
   type \<lparr>type = Inline, data = ''[1,2]''\<rparr> = Inline \<and>
   retrieveData js Map.empty (Some \<lparr>type = Inline, data = ''[1,2]''\<rparr>)
     = retrieveData js [''inputs/wrun_1/input'' \<mapsto> ''[]''] (Some \<lparr>type = Inline, data = ''[1,2]''\<rparr>) \<and>
   retrieveData js Map.empty None = Inr JNull"
  using missing_blob_is_fatal
          [of "\<lparr>type = R2, data = ''inputs/wrun_1/input''\<rparr>" Map.empty js Map.empty]
        missing_blob_is_fatal
          [of "\<lparr>type = Inline, data = ''[1,2]''\<rparr>" Map.empty js
              "[''inputs/wrun_1/input'' \<mapsto> ''[]'']"]
  by simp

section \<open>The cursor codec\<close>

lemma decodeCursor_Inr:
  "atob pf s = Some text \<Longrightarrow> JSON_parse pf text = Some v \<Longrightarrow> decodeCursor pf s = Inr v"
  by (simp add: decodeCursor_def)

lemma decodeCursor_fails_iff:
  "decodeCursor pf s = Inl InvalidCursor \<longleftrightarrow>
     atob pf s = None \<or> (\<exists>text. atob pf s = Some text \<and> JSON_parse pf text = None)"
  by (auto simp: decodeCursor_def split: option.splits)

lemma decodeCursor_other_error: "decodeCursor pf s = Inl e \<Longrightarrow> e = InvalidCursor"
  by (auto simp: decodeCursor_def split: option.splits)

text \<open>
  C9, as the code has it. \<^verbatim>\<open>decodeCursor(encodeCursor(c))\<close> returns \<open>c\<close> for every pair
  whose JSON text comes back from \<^verbatim>\<open>atob(btoa(text))\<close> and from \<^verbatim>\<open>JSON.parse\<close>.
  \<^verbatim>\<open>decodeCursor\<close> fails, with the invalid-cursor error, exactly when \<^verbatim>\<open>atob\<close> throws or
  \<^verbatim>\<open>JSON.parse\<close> throws on the decoded text; on every other string it returns the value
  that \<^verbatim>\<open>JSON.parse\<close> returned, whatever its shape.
\<close>

theorem cursor_codec:
  "(JSON_stringify pf (cursor_value c) = Some text \<and> atob pf (btoa pf text) = Some text \<and>
    JSON_parse pf text = Some (cursor_value c) \<longrightarrow>
      decodeCursor pf (encodeCursor pf c) = Inr (cursor_value c)) \<and>
   (decodeCursor pf s = Inl InvalidCursor) =
      (atob pf s = None \<or> (\<exists>t. atob pf s = Some t \<and> JSON_parse pf t = None)) \<and>
   (\<forall>e. decodeCursor pf s = Inl e \<longrightarrow> e = InvalidCursor) \<and>
   (\<forall>t v. atob pf s = Some t \<and> JSON_parse pf t = Some v \<longrightarrow> decodeCursor pf s = Inr v)"
proof (intro conjI impI allI)
  assume "JSON_stringify pf (cursor_value c) = Some text \<and> atob pf (btoa pf text) = Some text \<and>
    JSON_parse pf text = Some (cursor_value c)"
  then show "decodeCursor pf (encodeCursor pf c) = Inr (cursor_value c)"
    by (simp add: encodeCursor_def decodeCursor_def)
next
  show "(decodeCursor pf s = Inl InvalidCursor) =
      (atob pf s = None \<or> (\<exists>t. atob pf s = Some t \<and> JSON_parse pf t = None))"
    by (rule decodeCursor_fails_iff)
next
  fix e assume "decodeCursor pf s = Inl e"
  then show "e = InvalidCursor" by (rule decodeCursor_other_error)
next
  fix t v assume "atob pf s = Some t \<and> JSON_parse pf t = Some v"
  then show "decodeCursor pf s = Inr v" by (simp add: decodeCursor_Inr)
qed

lemma sample_cursor_text:
  "JSON_stringify js (cursor_value \<lparr>lastId = ''wrun_2'', lastTimestamp = 200\<rparr>)
     = Some ''{\"lastId\":\"wrun_2\",\"lastTimestamp\":200}''"
  by code_simp

lemma sample_cursor_base64:
  "btoa js ''{\"lastId\":\"wrun_2\",\"lastTimestamp\":200}''
     = ''eyJsYXN0SWQiOiJ3cnVuXzIiLCJsYXN0VGltZXN0YW1wIjoyMDB9''"
  by code_simp

lemma sample_cursor_atob:
  "atob js ''eyJsYXN0SWQiOiJ3cnVuXzIiLCJsYXN0VGltZXN0YW1wIjoyMDB9''
     = Some ''{\"lastId\":\"wrun_2\",\"lastTimestamp\":200}''"
  by code_simp

lemma sample_cursor_parse:
  "JSON_parse js ''{\"lastId\":\"wrun_2\",\"lastTimestamp\":200}''
     = Some (cursor_value \<lparr>lastId = ''wrun_2'', lastTimestamp = 200\<rparr>)"
  by code_simp

lemma not_base64_atob: "atob js ''not a cursor!'' = None"
  by code_simp

lemma not_json_atob: "atob js ''bm9wZQ=='' = Some ''nope''"
  by code_simp

lemma not_json_parse: "JSON_parse js ''nope'' = None"
  by code_simp

theorem cursor_codec_witness:
  "JSON_stringify js (cursor_value \<lparr>lastId = ''wrun_2'', lastTimestamp = 200\<rparr>)
     = Some ''{\"lastId\":\"wrun_2\",\"lastTimestamp\":200}'' \<and>
   encodeCursor js \<lparr>lastId = ''wrun_2'', lastTimestamp = 200\<rparr>
     = ''eyJsYXN0SWQiOiJ3cnVuXzIiLCJsYXN0VGltZXN0YW1wIjoyMDB9'' \<and>
   decodeCursor js ''eyJsYXN0SWQiOiJ3cnVuXzIiLCJsYXN0VGltZXN0YW1wIjoyMDB9''
     = Inr (cursor_value \<lparr>lastId = ''wrun_2'', lastTimestamp = 200\<rparr>) \<and>
   decodeCursor js ''not a cursor!'' = Inl InvalidCursor \<and>
   decodeCursor js ''bm9wZQ=='' = Inl InvalidCursor"
  using cursor_codec [of js "\<lparr>lastId = ''wrun_2'', lastTimestamp = 200\<rparr>"
                         "''{\"lastId\":\"wrun_2\",\"lastTimestamp\":200}''" "''not a cursor!''"]
        cursor_codec [of js "\<lparr>lastId = ''wrun_2'', lastTimestamp = 200\<rparr>"
                         "''{\"lastId\":\"wrun_2\",\"lastTimestamp\":200}''" "''bm9wZQ==''"]
        sample_cursor_text sample_cursor_base64 sample_cursor_atob sample_cursor_parse
        not_base64_atob not_json_atob not_json_parse
  by (simp add: encodeCursor_def)

lemma js_btoa_first:
  "\<exists>t. js_btoa (a # rest) = base64_char (of_char a div 4) # t"
  by (cases rest; cases "tl rest") (auto simp: Let_def)

lemma base64_char_30: "base64_char (of_char CHR ''{'' div 4) = CHR ''e''"
  by code_simp

lemma encodeCursor_first: "\<exists>t. encodeCursor js c = CHR ''e'' # t"
proof -
  have "\<exists>u. JSON_stringify js (cursor_value c) = Some (CHR ''{'' # u)"
    by (simp add: js_def cursor_value_def)
  then obtain u where "JSON_stringify js (cursor_value c) = Some (CHR ''{'' # u)" ..
  then have "encodeCursor js c = js_btoa (CHR ''{'' # u)"
    by (simp add: encodeCursor_def js_def)
  with js_btoa_first [of "CHR ''{''" u] base64_char_30 show ?thesis by auto
qed

lemma number_cursor_atob: "atob js ''MTIz'' = Some ''123''"
  by code_simp

lemma number_cursor_parse: "JSON_parse js ''123'' = Some (JNum 123)"
  by code_simp

text \<open>
  C9 as stated fails: the string \<^verbatim>\<open>MTIz\<close> is the encoding of no cursor (every encoding
  starts with \<^verbatim>\<open>e\<close>, the base64 of an opening brace), yet \<^verbatim>\<open>decodeCursor\<close> does not fail
  on it: it returns the number \<open>123\<close>, which has neither a \<open>lastId\<close> nor a
  \<open>lastTimestamp\<close>.
\<close>

theorem cursor_shape_unchecked_counterexample:
  "decodeCursor js ''MTIz'' = Inr (JNum 123) \<and>
   \<not> is_cursor (JNum 123) \<and>
   (\<forall>c. encodeCursor js c \<noteq> ''MTIz'')"
proof (intro conjI allI)
  show "decodeCursor js ''MTIz'' = Inr (JNum 123)"
    using number_cursor_atob number_cursor_parse by (simp add: decodeCursor_def)
  show "\<not> is_cursor (JNum 123)"
    by (simp add: is_cursor_def)
  fix c
  from encodeCursor_first [of c] show "encodeCursor js c \<noteq> ''MTIz''" by auto
qed

section \<open>Pages of a list call\<close>

subsection \<open>Conversions under \<^verbatim>\<open>Promise.all\<close>\<close>




subsection \<open>The page of the rows fetched\<close>




subsection \<open>The conditions the list operations write\<close>

lemma runs_keyset_rejected:
  "\<forall>a \<in> set [[], [''workflow_name = ?'']]. \<forall>b \<in> set [[], [''status = ?'']].
     \<forall>ord \<in> set [asc, desc].
       sql_condition_of (Array_join '' AND ''
         ([''1=1''] @ a @ b @ [keyset_clause ''created_at'' ''run_id'' ord])) = None"
  by code_simp

lemma steps_keyset_rejected:
  "\<forall>ord \<in> set [asc, desc].
     sql_condition_of (Array_join '' AND ''
       ([''run_id = ?''] @ [keyset_clause ''created_at'' ''step_id'' ord])) = None"
  by code_simp

lemma events_keyset_rejected:
  "\<forall>a \<in> set [''run_id = ?'', ''correlation_id = ?'']. \<forall>ord \<in> set [asc, desc].
     sql_condition_of (Array_join '' AND ''
       ([a] @ [keyset_clause ''created_at'' ''event_id'' ord])) = None"
  by code_simp

lemma hooks_keyset_rejected:
  "\<forall>a \<in> set [[], [''run_id = ?'']]. \<forall>ord \<in> set [asc, desc].
     sql_condition_of (Array_join '' AND ''
       (a @ [keyset_clause ''created_at'' ''hook_id'' ord])) = None"
  by code_simp

text \<open>
  The reading stops at the second \<^verbatim>\<open>AND\<close>, whatever the depth allowed: no comparison
  starts with that keyword. With a single \<^verbatim>\<open>AND\<close> before it, the keyset condition is read.
\<close>

lemma no_comparison_at_AND: "read_comparison n (TWord ''AND'' # ts) = None"
  by (cases n) (simp_all add: read_operand_def)


lemma keyset_condition_accepted:
  "sql_condition_of ''1=1 AND (created_at < ? OR (created_at = ? AND run_id < ?))''
     = Some (AllOf (Compare (Constant (SInt 1)) CHR ''='' (Constant (SInt 1)))
          (AnyOf (Compare (Column ''created_at'') CHR ''<'' Placeholder)
             (AllOf (Compare (Column ''created_at'') CHR ''='' Placeholder)
                (Compare (Column ''run_id'') CHR ''<'' Placeholder))))"
  by code_simp



subsection \<open>What the database answers\<close>

lemma d1_all_rejects:
  "sql_condition_of t = None \<Longrightarrow>
     d1_all names vals key rows \<lparr>where_text = Some t, order_direction = d, limit_clause = l\<rparr> bound
       = None"
  by (simp add: d1_all_def split: option.splits)

















subsection \<open>From a call to its rows\<close>

lemma cursor_clause_cases:
  assumes "buildCursorWhereClause pf c tc ic ord = Inr (clause, cp)"
  shows "if truthy_string c then clause = keyset_clause tc ic ord else clause = [] \<and> cp = []"
  using assms by (auto simp: buildCursorWhereClause_def split: if_splits sum.splits)

lemma keyset_clause_not_empty: "keyset_clause tc ic ord \<noteq> []"
  by (simp add: keyset_clause_def)

lemma sort_order_cases: "ord \<in> set [asc, desc]"
  by (cases ord) simp_all



lemma runs_list_cursor:
  assumes "truthy_string (cursor_of (pagination_of params))"
  shows "isl (runs_list pf params env)"
proof (cases "buildCursorWhereClause pf (cursor_of (pagination_of params)) ''created_at'' ''run_id''
                (order_of desc (pagination_of params))")
  case (Inl e)
  then show ?thesis by (simp add: runs_list_def Let_def)
next
  case (Inr p)
  let ?ord = "order_of desc (pagination_of params)"
  let ?A = "if truthy_string (workflowName_of params) then [''workflow_name = ?''] else []"
  let ?B = "if status_of params \<noteq> None then [''status = ?''] else []"
  obtain clause cp where p: "p = (clause, cp)" by (cases p)
  with Inr have cc: "buildCursorWhereClause pf (cursor_of (pagination_of params)) ''created_at''
      ''run_id'' ?ord = Inr (clause, cp)" by simp
  from cursor_clause_cases [OF cc] assms
  have cl: "clause = keyset_clause ''created_at'' ''run_id'' ?ord" by simp
  then have wt: "(if clause \<noteq> [] then [clause] else []) = [keyset_clause ''created_at'' ''run_id'' ?ord]"
    by (simp add: keyset_clause_not_empty)
  have "?A \<in> set [[], [''workflow_name = ?'']]" and "?B \<in> set [[], [''status = ?'']]"
    by simp_all
  from runs_keyset_rejected [rule_format, OF this sort_order_cases [of ?ord]]
  have rej: "sql_condition_of (Array_join '' AND ''
       ([''1=1''] @ ?A @ ?B @ [keyset_clause ''created_at'' ''run_id'' ?ord])) = None" .
  have "runs_list pf params env = Inl D1Error"
    by (simp only: runs_list_def Let_def cc sum.case prod.case wt d1_all_rejects [OF rej] option.case)
  then show ?thesis by simp
qed





lemma steps_list_cursor:
  assumes "truthy_string (cursor_of pg)"
  shows "isl (steps_list pf run pg rd env)"
proof (cases "buildCursorWhereClause pf (cursor_of pg) ''created_at'' ''step_id'' (order_of desc pg)")
  case (Inl e)
  then show ?thesis by (simp add: steps_list_def Let_def)
next
  case (Inr p)
  let ?ord = "order_of desc pg"
  obtain clause cp where p: "p = (clause, cp)" by (cases p)
  with Inr have cc: "buildCursorWhereClause pf (cursor_of pg) ''created_at'' ''step_id'' ?ord
      = Inr (clause, cp)" by simp
  from cursor_clause_cases [OF cc] assms
  have cl: "clause = keyset_clause ''created_at'' ''step_id'' ?ord" by simp
  then have wt: "(if clause \<noteq> [] then [clause] else []) = [keyset_clause ''created_at'' ''step_id'' ?ord]"
    by (simp add: keyset_clause_not_empty)
  from steps_keyset_rejected [rule_format, OF sort_order_cases [of ?ord]]
  have rej: "sql_condition_of (Array_join '' AND ''
       ([''run_id = ?''] @ [keyset_clause ''created_at'' ''step_id'' ?ord])) = None" .
  have "steps_list pf run pg rd env = Inl D1Error"
    by (simp only: steps_list_def Let_def cc sum.case prod.case wt d1_all_rejects [OF rej] option.case)
  then show ?thesis by simp
qed


lemma events_list_cursor:
  assumes "truthy_string (cursor_of pg)"
  shows "isl (events_list pf run pg rd env)"
proof (cases "buildCursorWhereClause pf (cursor_of pg) ''created_at'' ''event_id'' (order_of asc pg)")
  case (Inl e)
  then show ?thesis by (simp add: events_list_def Let_def)
next
  case (Inr p)
  let ?ord = "order_of asc pg"
  obtain clause cp where p: "p = (clause, cp)" by (cases p)
  with Inr have cc: "buildCursorWhereClause pf (cursor_of pg) ''created_at'' ''event_id'' ?ord
      = Inr (clause, cp)" by simp
  from cursor_clause_cases [OF cc] assms
  have cl: "clause = keyset_clause ''created_at'' ''event_id'' ?ord" by simp
  then have wt: "(if clause \<noteq> [] then [clause] else []) = [keyset_clause ''created_at'' ''event_id'' ?ord]"
    by (simp add: keyset_clause_not_empty)
  have "''run_id = ?'' \<in> set [''run_id = ?'', ''correlation_id = ?'']" by simp
  from events_keyset_rejected [rule_format, OF this sort_order_cases [of ?ord]]
  have rej: "sql_condition_of (Array_join '' AND ''
       ([''run_id = ?''] @ [keyset_clause ''created_at'' ''event_id'' ?ord])) = None" .
  have "events_list pf run pg rd env = Inl D1Error"
    by (simp only: events_list_def Let_def cc sum.case prod.case wt d1_all_rejects [OF rej] option.case)
  then show ?thesis by simp
qed


lemma correlated_list_cursor:
  assumes "truthy_string (cursor_of pg)"
  shows "isl (events_listByCorrelationId pf c pg rd env)"
proof (cases "buildCursorWhereClause pf (cursor_of pg) ''created_at'' ''event_id'' (order_of asc pg)")
  case (Inl e)
  then show ?thesis by (simp add: events_listByCorrelationId_def Let_def)
next
  case (Inr p)
  let ?ord = "order_of asc pg"
  obtain clause cp where p: "p = (clause, cp)" by (cases p)
  with Inr have cc: "buildCursorWhereClause pf (cursor_of pg) ''created_at'' ''event_id'' ?ord
      = Inr (clause, cp)" by simp
  from cursor_clause_cases [OF cc] assms
  have cl: "clause = keyset_clause ''created_at'' ''event_id'' ?ord" by simp
  then have wt: "(if clause \<noteq> [] then [clause] else []) = [keyset_clause ''created_at'' ''event_id'' ?ord]"
    by (simp add: keyset_clause_not_empty)
  have "''correlation_id = ?'' \<in> set [''run_id = ?'', ''correlation_id = ?'']" by simp
  from events_keyset_rejected [rule_format, OF this sort_order_cases [of ?ord]]
  have rej: "sql_condition_of (Array_join '' AND ''
       ([''correlation_id = ?''] @ [keyset_clause ''created_at'' ''event_id'' ?ord])) = None" .
  have "events_listByCorrelationId pf c pg rd env = Inl D1Error"
    by (simp only: events_listByCorrelationId_def Let_def cc sum.case prod.case wt d1_all_rejects [OF rej] option.case)
  then show ?thesis by simp
qed


lemma hooks_list_cursor:
  assumes "truthy_string (cursor_of pg)"
  shows "isl (hooks_list pf run pg rd env)"
proof (cases "buildCursorWhereClause pf (cursor_of pg) ''created_at'' ''hook_id'' (order_of desc pg)")
  case (Inl e)
  then show ?thesis by (simp add: hooks_list_def Let_def)
next
  case (Inr p)
  let ?ord = "order_of desc pg"
  obtain clause cp where p: "p = (clause, cp)" by (cases p)
  with Inr have cc: "buildCursorWhereClause pf (cursor_of pg) ''created_at'' ''hook_id'' ?ord
      = Inr (clause, cp)" by simp
  from cursor_clause_cases [OF cc] assms
  have cl: "clause = keyset_clause ''created_at'' ''hook_id'' ?ord" by simp
  then have wt: "(if clause \<noteq> [] then [clause] else []) = [keyset_clause ''created_at'' ''hook_id'' ?ord]"
    by (simp add: keyset_clause_not_empty)
  let ?A = "if truthy_string run then [''run_id = ?''] else []"
  have "?A \<in> set [[], [''run_id = ?'']]" by simp
  from hooks_keyset_rejected [rule_format, OF this sort_order_cases [of ?ord]]
  have rej: "sql_condition_of (Array_join '' AND ''
       (?A @ [keyset_clause ''created_at'' ''hook_id'' ?ord])) = None" .
  have some: "0 < length (?A @ [keyset_clause ''created_at'' ''hook_id'' ?ord])" by simp
  have "hooks_list pf run pg rd env = Inl D1Error"
    by (simp only: hooks_list_def Let_def cc sum.case prod.case wt some if_True d1_all_rejects [OF rej] option.case)
  then show ?thesis by simp
qed


subsection \<open>The page of a list call that returns\<close>











subsection \<open>A call with a cursor\<close>

text \<open>
  The keyset clause starts with \<^verbatim>\<open>AND\<close> and is joined to the other clauses with
  \<^verbatim>\<open> AND \<close>, or stands first after \<^verbatim>\<open>WHERE\<close>, so the condition of a call with a cursor is
  not one the database reads: no list call with a cursor returns. The cursor of the
  first page of three runs, given back for the second page, is rejected.
\<close>

lemma list_with_cursor_fails:
  assumes "truthy_string (cursor_of pg)"
  shows "pagination_of params = pg \<Longrightarrow> isl (runs_list pf params env)"
    and "isl (steps_list pf run pg rd env)"
    and "isl (events_list pf run pg rd env)"
    and "isl (events_listByCorrelationId pf correlation pg rd env)"
    and "isl (hooks_list pf of_run pg rd env)"
  using assms
  by (auto intro: runs_list_cursor steps_list_cursor events_list_cursor correlated_list_cursor
      hooks_list_cursor)

lemma second_page_rejected:
  "runs_list js
     (Some \<lparr>workflowName = None, ListWorkflowRunsParams.status = None,
            pagination = after_wrun_2, resolveData = None\<rparr>) three_runs
   = Inl D1Error"
  by code_simp

section \<open>The lifecycle timestamps of a run\<close>

lemma runs_get_Inr:
  assumes "runs_get pf ident rd env = Inr run"
  shows "\<exists>row. select_run env ident = Some row \<and>
           WorkflowRun.status run = WorkflowRunRow.status row \<and>
           WorkflowRun.startedAt run = date_or_undefined (WorkflowRunRow.started_at row) \<and>
           WorkflowRun.completedAt run = date_or_undefined (WorkflowRunRow.completed_at row)"
  using assms
  by (auto simp: runs_get_def rowToRun_def split: option.splits sum.splits prod.splits if_splits)

lemma assign_run_id [simp]: "WorkflowRunRow.run_id (assign_run c r) = WorkflowRunRow.run_id r"
  by (cases c) simp_all

lemma fold_assign_run_id [simp]:
  "WorkflowRunRow.run_id (fold assign_run cs r) = WorkflowRunRow.run_id r"
  by (induction cs arbitrary: r) simp_all

lemma find_map_same_key:
  assumes "\<And>r. key (g r) = key r"
  shows "find (\<lambda>r. key r = k) (map g rows) = map_option g (find (\<lambda>r. key r = k) rows)"
  using assms by (induction rows) simp_all

lemma select_run_update_run:
  "select_run (update_run ident cs env) i =
     map_option (\<lambda>r. if WorkflowRunRow.run_id r = ident then fold assign_run cs r else r)
       (select_run env i)"
  unfolding select_run_def update_run_def
  by (simp add: find_map_same_key [where key = WorkflowRunRow.run_id])

lemma select_run_bucket [simp]:
  "select_run (env\<lparr>WORKFLOW_STORAGE := b\<rparr>) i = select_run env i"
  by (simp add: select_run_def)

lemma select_run_key: "select_run env i = Some row \<Longrightarrow> WorkflowRunRow.run_id row = i"
  by (auto simp: select_run_def find_Some_iff)

lemma fold_keeps_started_at:
  "\<forall>c \<in> set cs. \<not> stamps_start c \<Longrightarrow>
     WorkflowRunRow.started_at (fold assign_run cs r) = WorkflowRunRow.started_at r"
proof (induction cs arbitrary: r)
  case Nil
  then show ?case by simp
next
  case (Cons c cs)
  then show ?case by (cases c) simp_all
qed

lemma fold_keeps_completed_at:
  "\<forall>c \<in> set cs. \<not> stamps_end c \<Longrightarrow>
     WorkflowRunRow.completed_at (fold assign_run cs r) = WorkflowRunRow.completed_at r"
proof (induction cs arbitrary: r)
  case Nil
  then show ?case by simp
next
  case (Cons c cs)
  then show ?case by (cases c) simp_all
qed

lemma fold_keeps_status:
  "\<forall>c \<in> set cs. (\<forall>s. c \<noteq> run_status s) \<Longrightarrow>
     WorkflowRunRow.status (fold assign_run cs r) = WorkflowRunRow.status r"
proof (induction cs arbitrary: r)
  case Nil
  then show ?case by simp
next
  case (Cons c cs)
  then show ?case by (cases c) simp_all
qed

lemma run_field_clauses_plain:
  "run_field_clauses pf dat = Some cs \<Longrightarrow>
     \<forall>c \<in> set cs. \<not> stamps_start c \<and> \<not> stamps_end c \<and> (\<forall>s. c \<noteq> run_status s)"
  by (auto simp: run_field_clauses_def split: option.splits if_splits)

text \<open>What a successful update leaves in the row.\<close>

lemma runs_update_Inr:
  assumes "runs_update pf threshold ident dat now env = (Inr run, env')"
  shows "\<exists>row current outputClauses fieldClauses.
           select_run env ident = Some row \<and>
           runs_get pf ident None env = Inr current \<and>
           (\<forall>c \<in> set (outputClauses @ fieldClauses).
               \<not> stamps_start c \<and> \<not> stamps_end c \<and> (\<forall>s. c \<noteq> run_status s)) \<and>
           select_run env' ident =
             Some (fold assign_run
                    ([run_updated_at now] @ run_status_clauses dat current now
                       @ outputClauses @ fieldClauses) row) \<and>
           runs_get pf ident None env' = Inr run"
proof -
  from assms obtain current where cur: "runs_get pf ident None env = Inr current"
    by (auto simp: runs_update_def split: sum.splits)
  then obtain row where row: "select_run env ident = Some row"
    by (auto simp: runs_get_def split: option.splits)
  then have key: "WorkflowRunRow.run_id row = ident" by (rule select_run_key)
  from assms cur obtain outputClauses bucket where
    out: "(if UpdateWorkflowRunRequest.output' dat \<noteq> JUndefined
           then (case storeData pf (WORKFLOW_STORAGE env) (UpdateWorkflowRunRequest.output' dat)
                         ''outputs'' ident ''output'' threshold of
                   (Inl e, bucket) \<Rightarrow> (Inl e, bucket)
                 | (Inr outputRef, bucket) \<Rightarrow>
                     (Inr [run_output_type (type outputRef),
                           run_output_data (DataReference.data outputRef)], bucket))
           else (Inr [], WORKFLOW_STORAGE env)) = (Inr outputClauses, bucket)"
    by (auto simp: runs_update_def split: sum.splits prod.splits)
  then have plain_out: "\<forall>c \<in> set outputClauses.
      \<not> stamps_start c \<and> \<not> stamps_end c \<and> (\<forall>s. c \<noteq> run_status s)"
    by (auto split: if_splits prod.splits sum.splits)
  from assms cur out obtain fieldClauses where
    fc: "run_field_clauses pf dat = Some fieldClauses"
    by (auto simp: runs_update_def Let_def split: option.splits)
  from assms cur out fc have
    env': "env' = update_run ident
             ([run_updated_at now] @ run_status_clauses dat current now @ outputClauses @ fieldClauses)
             (env\<lparr>WORKFLOW_STORAGE := bucket\<rparr>)"
    and run: "runs_get pf ident None env' = Inr run"
    by (auto simp: runs_update_def Let_def)
  from env' row key have
    "select_run env' ident =
       Some (fold assign_run
              ([run_updated_at now] @ run_status_clauses dat current now
                 @ outputClauses @ fieldClauses) row)"
    by (simp add: select_run_update_run)
  with row cur run plain_out run_field_clauses_plain [OF fc] show ?thesis
    by (intro exI [of _ row] exI [of _ current] exI [of _ outputClauses] exI [of _ fieldClauses])
       auto
qed

lemma started_at_after:
  assumes "\<forall>c \<in> set rest. \<not> stamps_start c"
  shows "WorkflowRunRow.started_at
           (fold assign_run ([run_updated_at now] @ run_status_clauses dat current now @ rest) row) =
         (if UpdateWorkflowRunRequest.status dat = Some Running \<and> WorkflowRun.startedAt current = None
          then Some now else WorkflowRunRow.started_at row)"
  using assms
  by (simp add: run_status_clauses_def fold_keeps_started_at split: option.splits)

lemma completed_at_after:
  assumes "\<forall>c \<in> set rest. \<not> stamps_end c"
  shows "WorkflowRunRow.completed_at
           (fold assign_run ([run_updated_at now] @ run_status_clauses dat current now @ rest) row) =
         (if UpdateWorkflowRunRequest.status dat \<in> {Some Completed, Some Failed, Some Cancelled}
             \<and> WorkflowRun.completedAt current = None
          then Some now else WorkflowRunRow.completed_at row)"
  using assms
  by (auto simp: run_status_clauses_def fold_keeps_completed_at split: option.splits)

lemma status_after:
  assumes "\<forall>c \<in> set rest. (\<forall>s. c \<noteq> run_status s)"
  shows "WorkflowRunRow.status
           (fold assign_run ([run_updated_at now] @ run_status_clauses dat current now @ rest) row) =
         (case UpdateWorkflowRunRequest.status dat of None \<Rightarrow> WorkflowRunRow.status row | Some s \<Rightarrow> s)"
  using assms
  by (auto simp: run_status_clauses_def fold_keeps_status split: option.splits)

text \<open>The row of a run after an update that returned.\<close>

lemma runs_update_row:
  assumes "runs_update pf threshold ident dat now env = (Inr run, env')"
  shows "\<exists>row row'.
           select_run env ident = Some row \<and> select_run env' ident = Some row' \<and>
           WorkflowRunRow.status row' =
             (case UpdateWorkflowRunRequest.status dat of None \<Rightarrow> WorkflowRunRow.status row | Some s \<Rightarrow> s) \<and>
           WorkflowRunRow.started_at row' =
             (if UpdateWorkflowRunRequest.status dat = Some Running
                 \<and> date_or_undefined (WorkflowRunRow.started_at row) = None
              then Some now else WorkflowRunRow.started_at row) \<and>
           WorkflowRunRow.completed_at row' =
             (if UpdateWorkflowRunRequest.status dat \<in> {Some Completed, Some Failed, Some Cancelled}
                 \<and> date_or_undefined (WorkflowRunRow.completed_at row) = None
              then Some now else WorkflowRunRow.completed_at row) \<and>
           WorkflowRun.status run = WorkflowRunRow.status row' \<and>
           WorkflowRun.startedAt run = date_or_undefined (WorkflowRunRow.started_at row') \<and>
           WorkflowRun.completedAt run = date_or_undefined (WorkflowRunRow.completed_at row')"
proof -
  from runs_update_Inr [OF assms] obtain row current outputClauses fieldClauses where
    row: "select_run env ident = Some row"
    and cur: "runs_get pf ident None env = Inr current"
    and plain: "\<forall>c \<in> set (outputClauses @ fieldClauses).
               \<not> stamps_start c \<and> \<not> stamps_end c \<and> (\<forall>s. c \<noteq> run_status s)"
    and row': "select_run env' ident =
             Some (fold assign_run
                    ([run_updated_at now] @ run_status_clauses dat current now
                       @ (outputClauses @ fieldClauses)) row)"
    and run: "runs_get pf ident None env' = Inr run"
    by auto
  from runs_get_Inr [OF cur] row have
    c: "WorkflowRun.startedAt current = date_or_undefined (WorkflowRunRow.started_at row)"
       "WorkflowRun.completedAt current = date_or_undefined (WorkflowRunRow.completed_at row)"
    by auto
  from runs_get_Inr [OF run] row' have
    r: "WorkflowRun.status run = WorkflowRunRow.status (fold assign_run
                    ([run_updated_at now] @ run_status_clauses dat current now
                       @ (outputClauses @ fieldClauses)) row)"
       "WorkflowRun.startedAt run = date_or_undefined (WorkflowRunRow.started_at (fold assign_run
                    ([run_updated_at now] @ run_status_clauses dat current now
                       @ (outputClauses @ fieldClauses)) row))"
       "WorkflowRun.completedAt run = date_or_undefined (WorkflowRunRow.completed_at (fold assign_run
                    ([run_updated_at now] @ run_status_clauses dat current now
                       @ (outputClauses @ fieldClauses)) row))"
    by auto
  from plain have p1: "\<forall>c \<in> set (outputClauses @ fieldClauses). \<not> stamps_start c"
    and p2: "\<forall>c \<in> set (outputClauses @ fieldClauses). \<not> stamps_end c"
    and p3: "\<forall>c \<in> set (outputClauses @ fieldClauses). (\<forall>s. c \<noteq> run_status s)"
    by blast+
  show ?thesis
    using row row' r c
    by (intro exI [of _ row]
          exI [of _ "fold assign_run ([run_updated_at now] @ run_status_clauses dat current now
                       @ (outputClauses @ fieldClauses)) row"])
       (simp only: started_at_after [OF p1] completed_at_after [OF p2] status_after [OF p3]
          simp_thms)
qed

lemma find_append_new:
  "k \<notin> set (map key rows) \<Longrightarrow>
     find (\<lambda>r. key r = k) (rows @ [x]) = (if key x = k then Some x else None)"
  by (induction rows) auto

lemma select_run_insert_run:
  assumes "insert_run row env = Some env'"
  shows "select_run env' (WorkflowRunRow.run_id row) = Some row"
  using assms
  by (auto simp: insert_run_def select_run_def
      find_append_new [where key = WorkflowRunRow.run_id] split: if_splits)

lemma runs_create_row:
  assumes "runs_create pf threshold ident now dat env = (Inr run, env')"
  shows "\<exists>row. select_run env' ident = Some row \<and>
           WorkflowRunRow.status row = Pending \<and>
           WorkflowRunRow.started_at row = None \<and>
           WorkflowRunRow.completed_at row = None \<and>
           WorkflowRun.status run = Pending \<and>
           WorkflowRun.startedAt run = None \<and>
           WorkflowRun.completedAt run = None"
proof -
  from assms obtain inputRef bucket where
    st: "storeData pf (WORKFLOW_STORAGE env) (CreateWorkflowRunRequest.input dat)
           ''inputs'' ident ''input'' threshold = (Inr inputRef, bucket)"
    by (auto simp: runs_create_def split: prod.splits sum.splits)
  from assms st obtain ctx row where
    row: "row = \<lparr>WorkflowRunRow.run_id = ident,
                 WorkflowRunRow.deployment_id = CreateWorkflowRunRequest.deploymentId dat,
                 workflow_name = CreateWorkflowRunRequest.workflowName dat,
                 WorkflowRunRow.status = Pending,
                 WorkflowRunRow.input_type = type inputRef,
                 WorkflowRunRow.input_data = Some (DataReference.data inputRef),
                 WorkflowRunRow.output_type = None,
                 WorkflowRunRow.output_data = None,
                 execution_context = ctx,
                 WorkflowRunRow.error = None,
                 WorkflowRunRow.error_code = None,
                 WorkflowRunRow.created_at = now,
                 WorkflowRunRow.updated_at = now,
                 WorkflowRunRow.started_at = None,
                 WorkflowRunRow.completed_at = None\<rparr>"
    and ins: "insert_run row (env\<lparr>WORKFLOW_STORAGE := bucket\<rparr>) = Some env'"
    and get: "runs_get pf ident None env' = Inr run"
    by (auto simp: runs_create_def Let_def split: option.splits)
  from select_run_insert_run [OF ins] row have sel: "select_run env' ident = Some row"
    by simp
  from runs_get_Inr [OF get] sel row show ?thesis
    by (auto simp: date_or_undefined_def truthy_number_def)
qed

lemma date_or_undefined_None: "date_or_undefined None = None"
  by (simp add: date_or_undefined_def truthy_number_def)

lemma date_or_undefined_Some: "t \<noteq> 0 \<Longrightarrow> date_or_undefined (Some t) = Some t"
  by (simp add: date_or_undefined_def truthy_number_def)

text \<open>
  C3. A run that \<^verbatim>\<open>create\<close> returns has the status \<^verbatim>\<open>pending\<close> and no \<open>startedAt\<close>, and its
  row has \<open>started_at\<close> and \<open>completed_at\<close> unset. An update that returns and sets the
  status to \<^verbatim>\<open>running\<close> stamps \<open>started_at\<close> with the time of the call when the column was
  unset, and leaves it as it was when it held a stamp; an update that returns and sets
  the status to \<^verbatim>\<open>completed\<close>, \<^verbatim>\<open>failed\<close> or \<^verbatim>\<open>cancelled\<close> does the same with
  \<open>completed_at\<close>. A stamp is a time other than \<open>0\<close>, the epoch itself: the code tests
  \<^verbatim>\<open>!current.startedAt\<close>, and a stored \<open>0\<close> reads as unset.
\<close>

theorem run_lifecycle_timestamps:
  "(fst (runs_create pf threshold ident now req env) = Inr run \<longrightarrow>
      WorkflowRun.status run = Pending \<and> WorkflowRun.startedAt run = None \<and>
      run_status_of (snd (runs_create pf threshold ident now req env)) ident = Some Pending \<and>
      run_started_at_of (snd (runs_create pf threshold ident now req env)) ident = None \<and>
      run_completed_at_of (snd (runs_create pf threshold ident now req env)) ident = None) \<and>
   (fst (runs_update pf threshold ident dat now env) = Inr run \<and>
    UpdateWorkflowRunRequest.status dat = Some Running \<and> run_started_at_of env ident = None \<longrightarrow>
      run_started_at_of (snd (runs_update pf threshold ident dat now env)) ident = Some now) \<and>
   (fst (runs_update pf threshold ident dat now env) = Inr run \<and>
    UpdateWorkflowRunRequest.status dat = Some Running \<and>
    run_started_at_of env ident = Some t \<and> t \<noteq> 0 \<longrightarrow>
      run_started_at_of (snd (runs_update pf threshold ident dat now env)) ident = Some t) \<and>
   (fst (runs_update pf threshold ident dat now env) = Inr run \<and>
    UpdateWorkflowRunRequest.status dat \<in> {Some Completed, Some Failed, Some Cancelled} \<and>
    run_completed_at_of env ident = None \<longrightarrow>
      run_completed_at_of (snd (runs_update pf threshold ident dat now env)) ident = Some now) \<and>
   (fst (runs_update pf threshold ident dat now env) = Inr run \<and>
    UpdateWorkflowRunRequest.status dat \<in> {Some Completed, Some Failed, Some Cancelled} \<and>
    run_completed_at_of env ident = Some t \<and> t \<noteq> 0 \<longrightarrow>
      run_completed_at_of (snd (runs_update pf threshold ident dat now env)) ident = Some t)"
proof -
  have created: "fst (runs_create pf threshold ident now req env) = Inr run \<longrightarrow>
      WorkflowRun.status run = Pending \<and> WorkflowRun.startedAt run = None \<and>
      run_status_of (snd (runs_create pf threshold ident now req env)) ident = Some Pending \<and>
      run_started_at_of (snd (runs_create pf threshold ident now req env)) ident = None \<and>
      run_completed_at_of (snd (runs_create pf threshold ident now req env)) ident = None"
  proof
    assume "fst (runs_create pf threshold ident now req env) = Inr run"
    then have "runs_create pf threshold ident now req env =
        (Inr run, snd (runs_create pf threshold ident now req env))"
      by (metis prod.collapse)
    from runs_create_row [OF this]
    show "WorkflowRun.status run = Pending \<and> WorkflowRun.startedAt run = None \<and>
        run_status_of (snd (runs_create pf threshold ident now req env)) ident = Some Pending \<and>
        run_started_at_of (snd (runs_create pf threshold ident now req env)) ident = None \<and>
        run_completed_at_of (snd (runs_create pf threshold ident now req env)) ident = None"
      by (auto simp: run_status_of_def run_started_at_of_def run_completed_at_of_def)
  qed
  have updated: "\<exists>row row'.
           select_run env ident = Some row \<and>
           select_run (snd (runs_update pf threshold ident dat now env)) ident = Some row' \<and>
           WorkflowRunRow.started_at row' =
             (if UpdateWorkflowRunRequest.status dat = Some Running
                 \<and> date_or_undefined (WorkflowRunRow.started_at row) = None
              then Some now else WorkflowRunRow.started_at row) \<and>
           WorkflowRunRow.completed_at row' =
             (if UpdateWorkflowRunRequest.status dat \<in> {Some Completed, Some Failed, Some Cancelled}
                 \<and> date_or_undefined (WorkflowRunRow.completed_at row) = None
              then Some now else WorkflowRunRow.completed_at row)"
    if "fst (runs_update pf threshold ident dat now env) = Inr run"
  proof -
    from that have "runs_update pf threshold ident dat now env =
        (Inr run, snd (runs_update pf threshold ident dat now env))"
      by (metis prod.collapse)
    from runs_update_row [OF this] show ?thesis by blast
  qed
  have first_start: "fst (runs_update pf threshold ident dat now env) = Inr run \<and>
      UpdateWorkflowRunRequest.status dat = Some Running \<and> run_started_at_of env ident = None \<longrightarrow>
        run_started_at_of (snd (runs_update pf threshold ident dat now env)) ident = Some now"
    using updated by (auto simp: run_started_at_of_def date_or_undefined_None)
  have later_start: "fst (runs_update pf threshold ident dat now env) = Inr run \<and>
      UpdateWorkflowRunRequest.status dat = Some Running \<and>
      run_started_at_of env ident = Some t \<and> t \<noteq> 0 \<longrightarrow>
        run_started_at_of (snd (runs_update pf threshold ident dat now env)) ident = Some t"
    using updated by (auto simp: run_started_at_of_def date_or_undefined_Some)
  have first_end: "fst (runs_update pf threshold ident dat now env) = Inr run \<and>
      UpdateWorkflowRunRequest.status dat \<in> {Some Completed, Some Failed, Some Cancelled} \<and>
      run_completed_at_of env ident = None \<longrightarrow>
        run_completed_at_of (snd (runs_update pf threshold ident dat now env)) ident = Some now"
    using updated by (auto simp: run_completed_at_of_def date_or_undefined_None)
  have later_end: "fst (runs_update pf threshold ident dat now env) = Inr run \<and>
      UpdateWorkflowRunRequest.status dat \<in> {Some Completed, Some Failed, Some Cancelled} \<and>
      run_completed_at_of env ident = Some t \<and> t \<noteq> 0 \<longrightarrow>
        run_completed_at_of (snd (runs_update pf threshold ident dat now env)) ident = Some t"
    using updated by (auto simp: run_completed_at_of_def date_or_undefined_Some)
  show ?thesis
    by (intro conjI) (rule created first_start later_start first_end later_end)+
qed

lemma lifecycle_create_returns:
  "\<not> isl (fst (runs_create js 10240 ''wrun_1'' 1000 sample_request empty_env))"
  by code_simp

lemma lifecycle_update_returns:
  "\<not> isl (fst (runs_update js 10240 ''wrun_1'' (status_only Running) 2000 lifecycle_1))"
  "\<not> isl (fst (runs_update js 10240 ''wrun_1'' (status_only Running) 3000 lifecycle_2))"
  "\<not> isl (fst (runs_update js 10240 ''wrun_1'' (status_only Completed) 4000 lifecycle_3))"
  "\<not> isl (fst (runs_update js 10240 ''wrun_1'' (status_only Completed) 5000 lifecycle_4))"
  by code_simp+

lemma returns_run: "\<not> isl r \<Longrightarrow> r = Inr (projr r)"
  by (cases r) simp_all

theorem run_lifecycle_timestamps_witness:
  "\<not> isl (fst (runs_create js 10240 ''wrun_1'' 1000 sample_request empty_env)) \<and>
   run_status_of lifecycle_1 ''wrun_1'' = Some Pending \<and>
   run_started_at_of lifecycle_1 ''wrun_1'' = None \<and>
   run_completed_at_of lifecycle_1 ''wrun_1'' = None \<and>
   \<not> isl (fst (runs_update js 10240 ''wrun_1'' (status_only Running) 2000 lifecycle_1)) \<and>
   run_started_at_of lifecycle_2 ''wrun_1'' = Some 2000 \<and>
   \<not> isl (fst (runs_update js 10240 ''wrun_1'' (status_only Running) 3000 lifecycle_2)) \<and>
   run_started_at_of lifecycle_3 ''wrun_1'' = Some 2000 \<and>
   run_completed_at_of lifecycle_3 ''wrun_1'' = None \<and>
   \<not> isl (fst (runs_update js 10240 ''wrun_1'' (status_only Completed) 4000 lifecycle_3)) \<and>
   run_completed_at_of lifecycle_4 ''wrun_1'' = Some 4000 \<and>
   \<not> isl (fst (runs_update js 10240 ''wrun_1'' (status_only Completed) 5000 lifecycle_4)) \<and>
   run_completed_at_of lifecycle_5 ''wrun_1'' = Some 4000"
proof -
  note c = returns_run [OF lifecycle_create_returns]
  note u2 = returns_run [OF lifecycle_update_returns(1)]
  note u3 = returns_run [OF lifecycle_update_returns(2)]
  note u4 = returns_run [OF lifecycle_update_returns(3)]
  note u5 = returns_run [OF lifecycle_update_returns(4)]
  have running: "UpdateWorkflowRunRequest.status (status_only Running) = Some Running"
    and completed: "UpdateWorkflowRunRequest.status (status_only Completed)
        \<in> {Some Completed, Some Failed, Some Cancelled}"
    by (simp_all add: status_only_def)
  from run_lifecycle_timestamps [of js 10240 "''wrun_1''" 1000 sample_request empty_env] c
  have e1: "run_status_of lifecycle_1 ''wrun_1'' = Some Pending"
    "run_started_at_of lifecycle_1 ''wrun_1'' = None"
    "run_completed_at_of lifecycle_1 ''wrun_1'' = None"
    unfolding lifecycle_1_def by blast+
  from run_lifecycle_timestamps
         [of js 10240 "''wrun_1''" 2000 _ lifecycle_1 _ "status_only Running"] u2 running e1(2)
  have e2: "run_started_at_of lifecycle_2 ''wrun_1'' = Some 2000"
    unfolding lifecycle_2_def by blast
  from run_lifecycle_timestamps
         [of js 10240 "''wrun_1''" 3000 _ lifecycle_2 _ "status_only Running" 2000] u3 running e2
  have e3: "run_started_at_of lifecycle_3 ''wrun_1'' = Some 2000"
    unfolding lifecycle_3_def by simp
  have e3c: "run_completed_at_of lifecycle_3 ''wrun_1'' = None"
    by code_simp
  from run_lifecycle_timestamps
         [of js 10240 "''wrun_1''" 4000 _ lifecycle_3 _ "status_only Completed"] u4 completed e3c
  have e4: "run_completed_at_of lifecycle_4 ''wrun_1'' = Some 4000"
    unfolding lifecycle_4_def by blast
  from run_lifecycle_timestamps
         [of js 10240 "''wrun_1''" 5000 _ lifecycle_4 _ "status_only Completed" 4000] u5 completed e4
  have e5: "run_completed_at_of lifecycle_5 ''wrun_1'' = Some 4000"
    unfolding lifecycle_5_def by simp
  show ?thesis
    by (intro conjI)
       (rule lifecycle_create_returns lifecycle_update_returns e1 e2 e3 e3c e4 e5)+
qed

section \<open>The terminal timestamp of a step\<close>

text \<open>
  C4, evaluated. The step \<^verbatim>\<open>wstp_1\<close> is pending and its \<open>completed_at\<close> is unset. The
  update to \<^verbatim>\<open>cancelled\<close> at 2000 returns and sets the status, and \<open>completed_at\<close> is
  still unset: the list in the step \<^verbatim>\<open>update\<close> is \<^verbatim>\<open>['completed', 'failed']\<close>. The same
  update to \<^verbatim>\<open>completed\<close> or to \<^verbatim>\<open>failed\<close> stamps 2000, and so does the update of the run
  to \<^verbatim>\<open>cancelled\<close>, whose list is \<^verbatim>\<open>['completed', 'failed', 'cancelled']\<close>.
\<close>

theorem step_cancelled_not_stamped:
  "step_completed_at_of one_step ''wstp_1'' = None \<and>
   \<not> isl (fst (steps_update js 10240 ''wrun_1'' ''wstp_1'' (step_status_only step_cancelled) 2000 one_step)) \<and>
   step_status_of
     (snd (steps_update js 10240 ''wrun_1'' ''wstp_1'' (step_status_only step_cancelled) 2000 one_step))
     ''wstp_1'' = Some step_cancelled \<and>
   step_completed_at_of
     (snd (steps_update js 10240 ''wrun_1'' ''wstp_1'' (step_status_only step_cancelled) 2000 one_step))
     ''wstp_1'' = None \<and>
   step_completed_at_of
     (snd (steps_update js 10240 ''wrun_1'' ''wstp_1'' (step_status_only step_completed) 2000 one_step))
     ''wstp_1'' = Some 2000 \<and>
   step_completed_at_of
     (snd (steps_update js 10240 ''wrun_1'' ''wstp_1'' (step_status_only step_failed) 2000 one_step))
     ''wstp_1'' = Some 2000 \<and>
   run_completed_at_of
     (snd (runs_update js 10240 ''wrun_1'' (status_only Cancelled) 2000 one_step))
     ''wrun_1'' = Some 2000"
  by code_simp

section \<open>Idempotent enqueue\<close>

lemma find_append:
  "find P (xs @ [x]) = (case find P xs of Some y \<Rightarrow> Some y | None \<Rightarrow> if P x then Some x else None)"
  by (induction xs) auto

lemma string_or_undefined_Some: "string_or_undefined s = Some k \<longleftrightarrow> s = Some k \<and> k \<noteq> []"
  by (auto simp: string_or_undefined_def truthy_string_def split: option.splits)

lemma queue_Inr:
  assumes "queue pf g q m opts env = (Inr i, env')"
  shows "(\<exists>k e. opt_idempotencyKey opts = Some k \<and> k \<noteq> [] \<and> select_message env k q = Some e \<and>
            i = message_id e \<and> env' = env) \<or>
         (i = g \<and> g \<notin> set (map message_id (queue_messages (DB env))) \<and>
          (\<exists>new. queue_messages (DB env') = queue_messages (DB env) @ [new] \<and>
                 message_id new = g \<and> queue_name new = q \<and>
                 idempotency_key new = string_or_undefined (opt_idempotencyKey opts)))"
  using assms
  by (auto simp: queue_def insert_message_def truthy_string_def
      split: option.splits if_splits)

lemma queue_Inr_keyed:
  assumes "queue pf g q m opts env = (Inr i, env')"
    and "opt_idempotencyKey opts = Some k" and "k \<noteq> []"
  shows "(\<exists>e. select_message env k q = Some e \<and> i = message_id e \<and> env' = env) \<or>
         (select_message env k q = None \<and> i = g \<and>
          (\<exists>new. queue_messages (DB env') = queue_messages (DB env) @ [new] \<and>
                 message_id new = g \<and> queue_name new = q \<and> idempotency_key new = Some k))"
  using assms
  by (auto simp: queue_def insert_message_def truthy_string_def string_or_undefined_def
      split: option.splits if_splits)

lemma select_message_Some:
  "select_message env k q = Some e \<Longrightarrow>
     e \<in> set (queue_messages (DB env)) \<and> idempotency_key e = Some k \<and> queue_name e = q"
  by (auto simp: select_message_def find_Some_iff)

lemma distinct_map_eq:
  "distinct (map f xs) \<Longrightarrow> x \<in> set xs \<Longrightarrow> y \<in> set xs \<Longrightarrow> f x = f y \<Longrightarrow> x = y"
  by (meson distinct_map inj_on_def)

lemma queue_same_key:
  assumes k: "k \<noteq> []"
    and o1: "opt_idempotencyKey opts1 = Some k" and o2: "opt_idempotencyKey opts2 = Some k"
    and first: "queue pf g1 q m1 opts1 env = (Inr i, env1)"
  shows "queue pf g2 q m2 opts2 env1 = (Inr i, env1)"
proof -
  from queue_Inr_keyed [OF first o1 k] consider
    (found) e where "select_message env k q = Some e" "i = message_id e" "env1 = env"
    | (inserted) new where "select_message env k q = None" "i = g1"
        "queue_messages (DB env1) = queue_messages (DB env) @ [new]"
        "message_id new = g1" "queue_name new = q" "idempotency_key new = Some k"
    by blast
  then show ?thesis
  proof cases
    case found
    with o2 k show ?thesis
      by (simp add: queue_def truthy_string_def)
  next
    case inserted
    then have "select_message env1 k q = Some new"
      by (simp add: select_message_def find_append)
    with inserted o2 k show ?thesis
      by (simp add: queue_def truthy_string_def)
  qed
qed

lemma queue_different_keys:
  assumes pk: "distinct (map message_id (queue_messages (DB env)))"
    and keys: "opt_idempotencyKey opts1 \<noteq> opt_idempotencyKey opts2"
    and first: "queue pf g1 q1 m1 opts1 env = (Inr i1, env1)"
    and second: "queue pf g2 q2 m2 opts2 env1 = (Inr i2, env2)"
  shows "i1 \<noteq> i2"
proof -
  from queue_Inr [OF first] consider
    (found) k e where "opt_idempotencyKey opts1 = Some k" "k \<noteq> []"
        "select_message env k q1 = Some e" "i1 = message_id e" "env1 = env"
    | (inserted) new where "i1 = g1" "g1 \<notin> set (map message_id (queue_messages (DB env)))"
        "queue_messages (DB env1) = queue_messages (DB env) @ [new]"
        "message_id new = g1" "idempotency_key new = string_or_undefined (opt_idempotencyKey opts1)"
    by blast
  then show ?thesis
  proof cases
    case found
    from select_message_Some [OF found(3)] have e: "e \<in> set (queue_messages (DB env))"
      "idempotency_key e = Some k" by simp_all
    from queue_Inr [OF second] show ?thesis
    proof (elim disjE exE conjE)
      fix k' e'
      assume a: "opt_idempotencyKey opts2 = Some k'" "select_message env1 k' q2 = Some e'"
        "i2 = message_id e'"
      with found select_message_Some [of env k' q2 e'] have
        e': "e' \<in> set (queue_messages (DB env))" "idempotency_key e' = Some k'" by simp_all
      show "i1 \<noteq> i2"
      proof
        assume "i1 = i2"
        with found a have "message_id e = message_id e'" by simp
        from distinct_map_eq [OF pk e(1) e'(1) this] e(2) e'(2) have "k = k'" by simp
        with found a keys show False by simp
      qed
    next
      fix new
      assume a: "i2 = g2" "g2 \<notin> set (map message_id (queue_messages (DB env1)))"
      from e(1) have "message_id e \<in> set (map message_id (queue_messages (DB env)))" by simp
      with found a show "i1 \<noteq> i2" by auto
    qed
  next
    case inserted
    from queue_Inr [OF second] show ?thesis
    proof (elim disjE exE conjE)
      fix k' e'
      assume a: "opt_idempotencyKey opts2 = Some k'" "k' \<noteq> []"
        "select_message env1 k' q2 = Some e'" "i2 = message_id e'"
      from select_message_Some [OF a(3)] inserted have
        mem: "e' \<in> set (queue_messages (DB env)) \<or> e' = new"
        and key: "idempotency_key e' = Some k'" by auto
      show "i1 \<noteq> i2"
      proof
        assume eq: "i1 = i2"
        from mem show False
        proof
          assume "e' \<in> set (queue_messages (DB env))"
          with eq a inserted show False by auto
        next
          assume "e' = new"
          with key inserted have "string_or_undefined (opt_idempotencyKey opts1) = Some k'" by simp
          then have "opt_idempotencyKey opts1 = Some k'" by (simp add: string_or_undefined_Some)
          with a keys show False by simp
        qed
      qed
    next
      fix new'
      assume a: "i2 = g2" "g2 \<notin> set (map message_id (queue_messages (DB env1)))"
      from inserted have "g1 \<in> set (map message_id (queue_messages (DB env1)))" by simp
      with inserted a show "i1 \<noteq> i2" by auto
    qed
  qed
qed

text \<open>
  C6, as the code has it. After an enqueue with a non-empty idempotency key has
  returned, a second enqueue on the same queue with the same key returns the same
  message identifier and leaves the environment as it was: no row is inserted and
  nothing is sent. Two enqueues with different keys that both return, on a table whose
  message identifiers are distinct (its primary key), return different identifiers.
\<close>

theorem idempotent_enqueue:
  "(k \<noteq> [] \<and> opt_idempotencyKey opts1 = Some k \<and> opt_idempotencyKey opts2 = Some k \<and>
    queue pf g1 q m1 opts1 env = (Inr i, env1) \<longrightarrow>
      queue pf g2 q m2 opts2 env1 = (Inr i, env1)) \<and>
   (distinct (map message_id (queue_messages (DB env))) \<and>
    opt_idempotencyKey opts1 \<noteq> opt_idempotencyKey opts2 \<and>
    queue pf g1 q m1 opts1 env = (Inr i, env1) \<and>
    queue pf g2 q' m2 opts2 env1 = (Inr i', env2) \<longrightarrow>
      i \<noteq> i')"
proof (intro conjI impI)
  assume "k \<noteq> [] \<and> opt_idempotencyKey opts1 = Some k \<and> opt_idempotencyKey opts2 = Some k \<and>
    queue pf g1 q m1 opts1 env = (Inr i, env1)"
  then show "queue pf g2 q m2 opts2 env1 = (Inr i, env1)"
    by (elim conjE) (rule queue_same_key)
next
  assume "distinct (map message_id (queue_messages (DB env))) \<and>
    opt_idempotencyKey opts1 \<noteq> opt_idempotencyKey opts2 \<and>
    queue pf g1 q m1 opts1 env = (Inr i, env1) \<and>
    queue pf g2 q' m2 opts2 env1 = (Inr i', env2)"
  then show "i \<noteq> i'"
    by (elim conjE) (rule queue_different_keys)
qed

lemma enqueue_first_id:
  "fst (queue js ''msg_a'' ''__wkf_step_process'' (JObj [(''runId'', JStr ''wrun_1'')])
          (with_key ''k1'') empty_env) = Inr ''msg_a''"
  by code_simp

lemma enqueue_other_id:
  "fst (queue js ''msg_c'' ''__wkf_step_process'' (JObj [(''runId'', JStr ''wrun_1'')]) (with_key ''k2'')
     (snd (queue js ''msg_a'' ''__wkf_step_process'' (JObj [(''runId'', JStr ''wrun_1'')])
               (with_key ''k1'') empty_env))) = Inr ''msg_c''"
  by code_simp

lemma pair_of_fst: "fst p = a \<Longrightarrow> p = (a, snd p)"
  by (cases p) simp

theorem idempotent_enqueue_witness:
  "fst (queue js ''msg_a'' ''__wkf_step_process'' (JObj [(''runId'', JStr ''wrun_1'')])
          (with_key ''k1'') empty_env) = Inr ''msg_a'' \<and>
   queue js ''msg_b'' ''__wkf_step_process'' (JObj [(''runId'', JStr ''wrun_1'')]) (with_key ''k1'')
     (snd (queue js ''msg_a'' ''__wkf_step_process'' (JObj [(''runId'', JStr ''wrun_1'')])
             (with_key ''k1'') empty_env))
   = (Inr ''msg_a'',
      snd (queue js ''msg_a'' ''__wkf_step_process'' (JObj [(''runId'', JStr ''wrun_1'')])
             (with_key ''k1'') empty_env)) \<and>
   distinct (map message_id (queue_messages (DB empty_env))) \<and>
   fst (queue js ''msg_c'' ''__wkf_step_process'' (JObj [(''runId'', JStr ''wrun_1'')]) (with_key ''k2'')
     (snd (queue js ''msg_a'' ''__wkf_step_process'' (JObj [(''runId'', JStr ''wrun_1'')])
             (with_key ''k1'') empty_env))) = Inr ''msg_c'' \<and>
   ''msg_a'' \<noteq> ''msg_c''"
proof -
  have k: "''k1'' \<noteq> []" "opt_idempotencyKey (with_key ''k1'') = Some ''k1''"
    "opt_idempotencyKey (with_key ''k2'') = Some ''k2''"
    by (simp_all add: with_key_def opt_idempotencyKey_def)
  have pk: "distinct (map message_id (queue_messages (DB empty_env)))"
    by (simp add: empty_env_def)
  from idempotent_enqueue
    [of "''k1''" "with_key ''k1''" "with_key ''k1''" js "''msg_a''" "''__wkf_step_process''"
        "JObj [(''runId'', JStr ''wrun_1'')]" empty_env "''msg_a''" _ "''msg_b''"
        "JObj [(''runId'', JStr ''wrun_1'')]"]
    k pair_of_fst [OF enqueue_first_id]
  have same: "queue js ''msg_b'' ''__wkf_step_process'' (JObj [(''runId'', JStr ''wrun_1'')]) (with_key ''k1'')
     (snd (queue js ''msg_a'' ''__wkf_step_process'' (JObj [(''runId'', JStr ''wrun_1'')])
             (with_key ''k1'') empty_env))
   = (Inr ''msg_a'',
      snd (queue js ''msg_a'' ''__wkf_step_process'' (JObj [(''runId'', JStr ''wrun_1'')])
             (with_key ''k1'') empty_env))"
    by simp
  from idempotent_enqueue
    [of "''k1''" "with_key ''k1''" "with_key ''k2''" js "''msg_a''" "''__wkf_step_process''"
        "JObj [(''runId'', JStr ''wrun_1'')]" empty_env "''msg_a''" _ "''msg_c''"
        "JObj [(''runId'', JStr ''wrun_1'')]" "''__wkf_step_process''" "''msg_c''"]
    k pk pair_of_fst [OF enqueue_first_id] pair_of_fst [OF enqueue_other_id]
  have diff: "''msg_a'' \<noteq> ''msg_c''"
    by simp
  show ?thesis
    by (intro conjI) (rule enqueue_first_id same pk enqueue_other_id diff)+
qed

text \<open>
  C6 as stated fails for the empty key: \<^verbatim>\<open>if (opts?.idempotencyKey)\<close> skips the lookup,
  so two enqueues on the same queue with the key \<^verbatim>\<open>''\<close> return two identifiers, insert
  two rows and send two messages.
\<close>

theorem empty_key_counterexample:
  "fst (queue js ''msg_a'' ''__wkf_step_process'' (JObj [(''runId'', JStr ''wrun_1'')])
          (with_key []) empty_env) = Inr ''msg_a'' \<and>
   fst (queue js ''msg_b'' ''__wkf_step_process'' (JObj [(''runId'', JStr ''wrun_1'')]) (with_key [])
          (snd (queue js ''msg_a'' ''__wkf_step_process'' (JObj [(''runId'', JStr ''wrun_1'')])
                  (with_key []) empty_env))) = Inr ''msg_b'' \<and>
   map message_id (queue_messages (DB
     (snd (queue js ''msg_b'' ''__wkf_step_process'' (JObj [(''runId'', JStr ''wrun_1'')]) (with_key [])
          (snd (queue js ''msg_a'' ''__wkf_step_process'' (JObj [(''runId'', JStr ''wrun_1'')])
                  (with_key []) empty_env)))))) = [''msg_a'', ''msg_b''] \<and>
   map messageId (QUEUE
     (snd (queue js ''msg_b'' ''__wkf_step_process'' (JObj [(''runId'', JStr ''wrun_1'')]) (with_key [])
          (snd (queue js ''msg_a'' ''__wkf_step_process'' (JObj [(''runId'', JStr ''wrun_1'')])
                  (with_key []) empty_env))))) = [''msg_a'', ''msg_b'']"
  by code_simp


end
